theory Spec2Isabelle
  imports Main
begin

section \<open>JavaScript values and strings\<close>

text \<open>
  The package is TypeScript running on Node.js. Every value that crosses the HTTP
  boundary is a parsed JSON body, and the handlers read it with unchecked casts, so the
  model keeps the run-time values: \<open>jsval\<close> is a JSON value or \<open>undefined\<close>.
  Strings are sequences of code units; the model keeps the code units below 256, one
  \<open>char\<close> each. A number \<open>JNumber m e\<close> is the decimal \<open>m * 10 ^ e\<close>, kept exactly
  (the rounding of IEEE doubles is outside the model). An object is the list of its own
  properties in insertion order, each key once.
\<close>

datatype jsval =
    JUndefined
  | JNull
  | JBool bool
  | JNumber int int
  | JString string
  | JArray "jsval list"
  | JObject "(string \<times> jsval) list"

text \<open>A thrown value: \<open>new Error(message)\<close>, or the \<open>TypeError\<close> of the engine when a
  property of \<open>null\<close> or \<open>undefined\<close> is read or a missing method is called.\<close>

datatype js_error = Error string | TypeError string


text \<open>Truthiness, as \<open>||\<close>, \<open>&&\<close> and \<open>if\<close> use it.\<close>

fun truthy :: "jsval \<Rightarrow> bool" where
  "truthy JUndefined = False"
| "truthy JNull = False"
| "truthy (JBool b) = b"
| "truthy (JNumber m e) = (m \<noteq> 0)"
| "truthy (JString s) = (s \<noteq> [])"
| "truthy (JArray xs) = True"
| "truthy (JObject fs) = True"

definition js_or :: "jsval \<Rightarrow> jsval \<Rightarrow> jsval" where
  \<comment> \<open>\<open>a || b\<close>\<close>
  "js_or a b = (if truthy a then a else b)"

definition nullish :: "jsval \<Rightarrow> bool" where
  "nullish v = (v = JUndefined \<or> v = JNull)"

text \<open>
  Reading \<open>v.k\<close>. Only data properties that the handlers name are read (\<open>parts\<close>,
  \<open>type\<close>, \<open>text\<close>, \<open>id\<close>, ...); none of them exists on a prototype, so on a number,
  boolean, string or array the read is \<open>undefined\<close>.
\<close>

fun js_get :: "jsval \<Rightarrow> string \<Rightarrow> js_error + jsval" where
  "js_get JUndefined k =
     Inl (TypeError (''Cannot read properties of undefined (reading '' @ k @ '')''))"
| "js_get JNull k =
     Inl (TypeError (''Cannot read properties of null (reading '' @ k @ '')''))"
| "js_get (JObject fs) k = Inr (case map_of fs k of Some v \<Rightarrow> v | None \<Rightarrow> JUndefined)"
| "js_get v k = Inr JUndefined"

definition js_get_opt :: "jsval \<Rightarrow> string \<Rightarrow> jsval" where
  \<comment> \<open>optional chaining \<open>v?.k\<close>\<close>
  "js_get_opt v k = (case js_get v k of Inl e \<Rightarrow> JUndefined | Inr x \<Rightarrow> x)"

text \<open>Writing a property: an existing key keeps its place, a new key goes last.\<close>

fun obj_put :: "string \<Rightarrow> jsval \<Rightarrow> (string \<times> jsval) list \<Rightarrow> (string \<times> jsval) list" where
  "obj_put k v [] = [(k, v)]"
| "obj_put k v ((k', v') # fs) = (if k = k' then (k, v) # fs else (k', v') # obj_put k v fs)"

definition obj_lit :: "(string \<times> jsval) list \<Rightarrow> jsval" where
  \<comment> \<open>an object literal \<open>{k1: v1, ...}\<close>, keys evaluated left to right\<close>
  "obj_lit kvs = JObject (foldl (\<lambda>fs (k, v). obj_put k v fs) [] kvs)"

subsection \<open>String methods\<close>

definition js_whitespace :: "char \<Rightarrow> bool" where
  \<comment> \<open>WhiteSpace and LineTerminator below code unit 256\<close>
  "js_whitespace c = (c \<in> set [CHR 0x09, CHR 0x0A, CHR 0x0B, CHR 0x0C, CHR 0x0D, CHR 0x20, CHR 0xA0])"

definition trim :: "string \<Rightarrow> string" where
  "trim s = rev (dropWhile js_whitespace (rev (dropWhile js_whitespace s)))"

fun str_includes :: "string \<Rightarrow> string \<Rightarrow> bool" where
  "str_includes [] sub = (sub = [])"
| "str_includes (c # cs) sub = (take (length sub) (c # cs) = sub \<or> str_includes cs sub)"

text \<open>\<open>s.split(sep)\<close>: the occurrences of \<open>sep\<close> are found from the left, without
  overlap. \<open>acc\<close> holds the current piece, reversed.\<close>

function split_from :: "string \<Rightarrow> string \<Rightarrow> string \<Rightarrow> string list" where
  "split_from sep acc [] = [rev acc]"
| "split_from sep acc (c # cs) =
     (if sep \<noteq> [] \<and> take (length sep) (c # cs) = sep
      then rev acc # split_from sep [] (drop (length sep) (c # cs))
      else split_from sep (c # acc) cs)"
  by pat_completeness auto
termination
  by (relation "measure (\<lambda>(sep, acc, s). length s)") auto

definition str_split :: "string \<Rightarrow> string \<Rightarrow> string list" where
  "str_split s sep = (if sep = [] then map (\<lambda>c. [c]) s else split_from sep [] s)"

definition replace_first :: "string \<Rightarrow> string \<Rightarrow> string \<Rightarrow> string" where
  \<comment> \<open>\<open>s.replace(pat, by)\<close> with a string pattern: the first occurrence only\<close>
  "replace_first s pat by' =
     (if pat = [] then by' @ s
      else if str_includes s pat
      then (case split_from pat [] s of
              x # rest \<Rightarrow> x @ by' @ drop (length x + length pat) s
            | [] \<Rightarrow> s)
      else s)"


fun join :: "string list \<Rightarrow> string \<Rightarrow> string" where
  "join [] sep = []"
| "join [x] sep = x"
| "join (x # y # ys) sep = x @ sep @ join (y # ys) sep"

subsection \<open>Numbers and ToString\<close>

definition digit_char :: "nat \<Rightarrow> char" where
  "digit_char d = char_of (d + 48)"

fun string_of_nat :: "nat \<Rightarrow> string" where
  "string_of_nat n =
     (let last_digit = digit_char (n mod 10)
      in if 10 \<le> n then string_of_nat (n div 10) @ [last_digit] else [last_digit])"

declare string_of_nat.simps [simp del]

definition int_to_string :: "int \<Rightarrow> string" where
  \<comment> \<open>\<open>Number.prototype.toString\<close> on an integer\<close>
  "int_to_string i = (if 0 \<le> i then string_of_nat (nat i) else CHR ''-'' # string_of_nat (nat \<bar>i\<bar>))"

text \<open>A decimal is kept without trailing zeros in its digits, so that equal numbers are
  equal values.\<close>

function norm10 :: "int \<Rightarrow> int \<Rightarrow> int \<times> int" where
  "norm10 m e =
     (if m = 0 then (0, 0)
      else if m mod 10 = 0 then norm10 (m div 10) (e + 1)
      else (m, e))"
  by pat_completeness auto
termination
  by (relation "measure (\<lambda>(m, e). nat \<bar>m\<bar>)") auto

declare norm10.simps [simp del]

definition number_to_string :: "int \<Rightarrow> int \<Rightarrow> string" where
  \<comment> \<open>Number::toString in radix 10, on the digits \<open>ds\<close> and the position \<open>n\<close> of the point\<close>
  "number_to_string m0 e0 =
     (case norm10 m0 e0 of (m, e) \<Rightarrow>
        if m = 0 then ''0''
        else
          let ds = string_of_nat (nat \<bar>m\<bar>);
              k = int (length ds);
              n = k + e;
              sign = (if m < 0 then ''-'' else [])
          in sign @
            (if k \<le> n \<and> n \<le> 21 then ds @ replicate (nat (n - k)) CHR ''0''
             else if 0 < n \<and> n \<le> 21 then take (nat n) ds @ ''.'' @ drop (nat n) ds
             else if - 6 < n \<and> n \<le> 0 then ''0.'' @ replicate (nat (- n)) CHR ''0'' @ ds
             else
               (let ex = (if n - 1 < 0 then ''-'' else ''+'') @ string_of_nat (nat \<bar>n - 1\<bar>)
                in if k = 1 then ds @ ''e'' @ ex
                   else take 1 ds @ ''.'' @ drop 1 ds @ ''e'' @ ex)))"

text \<open>ToString, as template literals, \<open>+\<close> on a string and \<open>Array.prototype.join\<close>
  apply it.\<close>

fun ToString :: "jsval \<Rightarrow> string" where
  "ToString JUndefined = ''undefined''"
| "ToString JNull = ''null''"
| "ToString (JBool b) = (if b then ''true'' else ''false'')"
| "ToString (JNumber m e) = number_to_string m e"
| "ToString (JString s) = s"
| "ToString (JArray xs) =
     join (map (\<lambda>x. if x = JUndefined \<or> x = JNull then [] else ToString x) xs) '',''"
| "ToString (JObject fs) = ''[object Object]''"

definition array_join :: "jsval list \<Rightarrow> string \<Rightarrow> string" where
  \<comment> \<open>\<open>xs.join(sep)\<close>: \<open>null\<close> and \<open>undefined\<close> elements give the empty string\<close>
  "array_join xs sep =
     join (map (\<lambda>x. if x = JUndefined \<or> x = JNull then [] else ToString x) xs) sep"

section \<open>JSON.parse\<close>

text \<open>
  \<open>JSON.parse\<close> is the engine's; three handlers branch on whether it throws, so the
  model implements the JSON grammar (ECMA-404): a lexer, then a stack machine over the
  tokens. \<open>None\<close> is the SyntaxError. An escape \<open>\\uXXXX\<close> denotes a code unit; above
  255 it is reduced to a \<open>char\<close>, the only place where the model's strings differ from
  the engine's.
\<close>

datatype token =
    TLBrace | TRBrace | TLBrack | TRBrack | TColon | TComma
  | TString string | TNumber int int | TTrue | TFalse | TNull

definition is_digit :: "char \<Rightarrow> bool" where
  "is_digit c = (48 \<le> (of_char c :: nat) \<and> (of_char c :: nat) \<le> 57)"

definition hex_val :: "char \<Rightarrow> nat option" where
  "hex_val c =
     (let n = (of_char c :: nat)
      in if 48 \<le> n \<and> n \<le> 57 then Some (n - 48)
         else if 65 \<le> n \<and> n \<le> 70 then Some (n - 55)
         else if 97 \<le> n \<and> n \<le> 102 then Some (n - 87)
         else None)"

definition hex4 :: "char \<Rightarrow> char \<Rightarrow> char \<Rightarrow> char \<Rightarrow> nat option" where
  "hex4 a b c d =
     (case (hex_val a, hex_val b, hex_val c, hex_val d) of
        (Some w, Some x, Some y, Some z) \<Rightarrow> Some (((w * 16 + x) * 16 + y) * 16 + z)
      | _ \<Rightarrow> None)"

definition unescape :: "char \<Rightarrow> char option" where
  "unescape e =
     (if e = CHR 0x22 then Some (CHR 0x22)
      else if e = CHR 0x5C then Some (CHR 0x5C)
      else if e = CHR ''/'' then Some (CHR ''/'')
      else if e = CHR ''b'' then Some (CHR 0x08)
      else if e = CHR ''f'' then Some (CHR 0x0C)
      else if e = CHR ''n'' then Some (CHR 0x0A)
      else if e = CHR ''r'' then Some (CHR 0x0D)
      else if e = CHR ''t'' then Some (CHR 0x09)
      else None)"

text \<open>The characters of a string literal after its opening quote; the result is the
  string and the input after the closing quote.\<close>

fun lex_string :: "string \<Rightarrow> string \<Rightarrow> (string \<times> string) option" where
  "lex_string acc [] = None"
| "lex_string acc (c # cs) =
     (if c = CHR 0x22 then Some (rev acc, cs)
      else if c = CHR 0x5C then
        (case cs of
           [] \<Rightarrow> None
         | e # es \<Rightarrow>
             if e = CHR ''u'' then
               (case es of
                  h1 # h2 # h3 # h4 # rest \<Rightarrow>
                    (case hex4 h1 h2 h3 h4 of
                       None \<Rightarrow> None
                     | Some n \<Rightarrow> lex_string (char_of n # acc) rest)
                | _ \<Rightarrow> None)
             else
               (case unescape e of
                  None \<Rightarrow> None
                | Some x \<Rightarrow> lex_string (x # acc) es))
      else if (of_char c :: nat) < 32 then None
      else lex_string (c # acc) cs)"

definition digits_val :: "string \<Rightarrow> nat" where
  "digits_val ds = foldl (\<lambda>n c. 10 * n + ((of_char c :: nat) - 48)) 0 ds"

text \<open>A number: \<open>-? (0 | [1-9][0-9]*) (. [0-9]+)? ([eE] [+-]? [0-9]+)?\<close>. A digit after a
  leading zero is refused here; the grammar would refuse it as the next token.\<close>

definition lex_int :: "string \<Rightarrow> ((bool \<times> string) \<times> string) option" where
  "lex_int s =
     (let neg = (s \<noteq> [] \<and> hd s = CHR ''-'');
          s1 = (if neg then tl s else s);
          ds = takeWhile is_digit s1
      in if ds = [] \<or> (hd ds = CHR ''0'' \<and> tl ds \<noteq> []) then None
         else Some ((neg, ds), dropWhile is_digit s1))"

definition lex_frac :: "string \<Rightarrow> (string \<times> string) option" where
  "lex_frac r =
     (case r of
        [] \<Rightarrow> Some ([], r)
      | c # cs \<Rightarrow>
          if c = CHR ''.'' then
            (if takeWhile is_digit cs = [] then None
             else Some (takeWhile is_digit cs, dropWhile is_digit cs))
          else Some ([], r))"

definition lex_sign :: "string \<Rightarrow> bool \<times> string" where
  "lex_sign r =
     (case r of
        [] \<Rightarrow> (False, r)
      | c # cs \<Rightarrow>
          if c = CHR ''-'' then (True, cs) else if c = CHR ''+'' then (False, cs) else (False, r))"

definition lex_exp :: "string \<Rightarrow> (int \<times> string) option" where
  "lex_exp r =
     (case r of
        [] \<Rightarrow> Some (0, r)
      | c # cs \<Rightarrow>
          if c = CHR ''e'' \<or> c = CHR ''E'' then
            (case lex_sign cs of (neg, r') \<Rightarrow>
               if takeWhile is_digit r' = [] then None
               else Some ((if neg then - int (digits_val (takeWhile is_digit r'))
                           else int (digits_val (takeWhile is_digit r'))),
                          dropWhile is_digit r'))
          else Some (0, r))"

definition lex_number :: "string \<Rightarrow> ((int \<times> int) \<times> string) option" where
  "lex_number s =
     (case lex_int s of
        None \<Rightarrow> None
      | Some ((neg, ds), r1) \<Rightarrow>
          (case lex_frac r1 of
             None \<Rightarrow> None
           | Some (fs, r2) \<Rightarrow>
               (case lex_exp r2 of
                  None \<Rightarrow> None
                | Some (ex, r3) \<Rightarrow>
                    Some (norm10 (if neg then - int (digits_val (ds @ fs))
                                  else int (digits_val (ds @ fs)))
                                 (ex - int (length fs)),
                          r3))))"

definition json_ws :: "char \<Rightarrow> bool" where
  "json_ws c = (c \<in> set [CHR 0x20, CHR 0x09, CHR 0x0A, CHR 0x0D])"

function tokenize :: "string \<Rightarrow> token list option" where
  "tokenize [] = Some []"
| "tokenize (c # cs) =
     (if json_ws c then tokenize cs
      else if c = CHR ''{'' then map_option ((#) TLBrace) (tokenize cs)
      else if c = CHR ''}'' then map_option ((#) TRBrace) (tokenize cs)
      else if c = CHR ''['' then map_option ((#) TLBrack) (tokenize cs)
      else if c = CHR '']'' then map_option ((#) TRBrack) (tokenize cs)
      else if c = CHR '':'' then map_option ((#) TColon) (tokenize cs)
      else if c = CHR '','' then map_option ((#) TComma) (tokenize cs)
      else if c = CHR 0x22 then
        (case lex_string [] cs of
           None \<Rightarrow> None
         | Some (str, rest) \<Rightarrow> map_option ((#) (TString str)) (tokenize rest))
      else if c = CHR ''-'' \<or> is_digit c then
        (case lex_number (c # cs) of
           None \<Rightarrow> None
         | Some ((m, e), rest) \<Rightarrow> map_option ((#) (TNumber m e)) (tokenize rest))
      else if take 4 (c # cs) = ''true'' then map_option ((#) TTrue) (tokenize (drop 3 cs))
      else if take 5 (c # cs) = ''false'' then map_option ((#) TFalse) (tokenize (drop 4 cs))
      else if take 4 (c # cs) = ''null'' then map_option ((#) TNull) (tokenize (drop 3 cs))
      else None)"
  by pat_completeness auto
termination
proof -
  have str: "lex_string acc s = Some (x, r) \<Longrightarrow> length r < Suc (length s)" for acc s x r
  proof (induction acc s arbitrary: x r rule: lex_string.induct)
    case (1 acc)
    then show ?case by simp
  next
    case (2 acc c cs)
    then show ?case
      by (auto split: if_splits list.splits option.splits) fastforce+
  qed
  have dw: "length (dropWhile P xs) \<le> length xs" for P and xs :: string
    by (rule length_dropWhile_le)
  have dw': "takeWhile P xs \<noteq> [] \<Longrightarrow> length (dropWhile P xs) < length xs"
    for P and xs :: string
  proof -
    assume ne: "takeWhile P xs \<noteq> []"
    have "length (takeWhile P xs) + length (dropWhile P xs) = length xs"
      by (metis length_append takeWhile_dropWhile_id)
    moreover have "0 < length (takeWhile P xs)" using ne by simp
    ultimately show ?thesis by linarith
  qed
  have li: "lex_int s = Some (x, r) \<Longrightarrow> length r < length s" for s x r
  proof -
    assume a: "lex_int s = Some (x, r)"
    define s1 where "s1 = (if s \<noteq> [] \<and> hd s = CHR ''-'' then tl s else s)"
    have ne: "takeWhile is_digit s1 \<noteq> []" and r: "r = dropWhile is_digit s1"
      using a unfolding lex_int_def s1_def Let_def by (auto split: if_splits)
    have "length s1 \<le> length s" unfolding s1_def by (cases s) auto
    then show ?thesis using dw'[OF ne] r by simp
  qed
  have lf: "lex_frac s = Some (x, r) \<Longrightarrow> length r \<le> length s" for s x r
    using dw[of is_digit "tl s"]
    by (cases s) (auto simp: lex_frac_def le_SucI split: if_splits)
  have ls: "lex_sign s = (b, r) \<Longrightarrow> length r \<le> length s" for s b r
    by (cases s) (auto simp: lex_sign_def split: if_splits)
  have le: "lex_exp s = Some (x, r) \<Longrightarrow> length r \<le> length s" for s x r
  proof (cases s)
    case Nil
    assume "lex_exp s = Some (x, r)"
    then show ?thesis using Nil by (simp add: lex_exp_def)
  next
    case (Cons c cs)
    assume a: "lex_exp s = Some (x, r)"
    obtain b r' where sg: "lex_sign cs = (b, r')" by (cases "lex_sign cs") auto
    have "length r \<le> length r' \<or> r = s"
      using a Cons sg dw[of is_digit r'] by (auto simp: lex_exp_def split: if_splits)
    then show ?thesis using ls[OF sg] Cons by auto
  qed
  have num: "lex_number s = Some (n, r) \<Longrightarrow> length r < length s" for s n r
  proof -
    assume a: "lex_number s = Some (n, r)"
    then obtain x r1 y r2 z where
      "lex_int s = Some (x, r1)" "lex_frac r1 = Some (y, r2)" "lex_exp r2 = Some (z, r)"
      unfolding lex_number_def by (auto split: option.splits)
    then show ?thesis using li lf le by fastforce
  qed
  show ?thesis
  proof (relation "measure length", simp_all, goal_cases)
    case (1 c cs x2 x y)
    then have "lex_string [] cs = Some (x, y)" by simp
    then show ?case by (rule str)
  next
    case (2 c cs x2 x y xa ya)
    then have "lex_number (c # cs) = Some (x, y)" by simp
    then have "length y < length (c # cs)" by (rule num)
    then show ?case by simp
  qed
qed

declare tokenize.simps [simp del]

text \<open>The parser: a stack of open containers and what may come next.\<close>

datatype frame =
    FArr "jsval list"
  | FObj "(string \<times> jsval) list"
  | FKey "(string \<times> jsval) list" string

datatype mode =
    MValue | MValueOrEnd | MKeyOrEnd | MKey | MColon | MAfter | MDone jsval

fun deliver :: "jsval \<Rightarrow> frame list \<Rightarrow> (frame list \<times> mode) option" where
  "deliver v [] = Some ([], MDone v)"
| "deliver v (FArr vs # st) = Some (FArr (v # vs) # st, MAfter)"
| "deliver v (FKey ps k # st) = Some (FObj (obj_put k v ps) # st, MAfter)"
| "deliver v (FObj ps # st) = None"

definition wants_value :: "mode \<Rightarrow> bool" where
  "wants_value md = (md = MValue \<or> md = MValueOrEnd)"

fun parse_step :: "token \<Rightarrow> frame list \<times> mode \<Rightarrow> (frame list \<times> mode) option" where
  "parse_step (TString s) (st, md) =
     (if wants_value md then deliver (JString s) st
      else if md = MKey \<or> md = MKeyOrEnd then
        (case st of FObj ps # st' \<Rightarrow> Some (FKey ps s # st', MColon) | _ \<Rightarrow> None)
      else None)"
| "parse_step (TNumber m e) (st, md) = (if wants_value md then deliver (JNumber m e) st else None)"
| "parse_step TTrue (st, md) = (if wants_value md then deliver (JBool True) st else None)"
| "parse_step TFalse (st, md) = (if wants_value md then deliver (JBool False) st else None)"
| "parse_step TNull (st, md) = (if wants_value md then deliver JNull st else None)"
| "parse_step TLBrack (st, md) = (if wants_value md then Some (FArr [] # st, MValueOrEnd) else None)"
| "parse_step TLBrace (st, md) = (if wants_value md then Some (FObj [] # st, MKeyOrEnd) else None)"
| "parse_step TRBrack (st, md) =
     (if md = MValueOrEnd \<or> md = MAfter then
        (case st of FArr vs # st' \<Rightarrow> deliver (JArray (rev vs)) st' | _ \<Rightarrow> None)
      else None)"
| "parse_step TRBrace (st, md) =
     (if md = MKeyOrEnd \<or> md = MAfter then
        (case st of FObj ps # st' \<Rightarrow> deliver (JObject ps) st' | _ \<Rightarrow> None)
      else None)"
| "parse_step TComma (st, md) =
     (if md = MAfter then
        (case st of
           FArr vs # st' \<Rightarrow> Some (st, MValue)
         | FObj ps # st' \<Rightarrow> Some (st, MKey)
         | _ \<Rightarrow> None)
      else None)"
| "parse_step TColon (st, md) = (if md = MColon then Some (st, MValue) else None)"

fun parse_tokens :: "token list \<Rightarrow> frame list \<times> mode \<Rightarrow> jsval option" where
  "parse_tokens [] (st, md) = (case md of MDone v \<Rightarrow> Some v | _ \<Rightarrow> None)"
| "parse_tokens (t # ts) c =
     (case parse_step t c of None \<Rightarrow> None | Some c' \<Rightarrow> parse_tokens ts c')"

definition JSON_parse :: "string \<Rightarrow> jsval option" where
  "JSON_parse s = (case tokenize s of None \<Rightarrow> None | Some ts \<Rightarrow> parse_tokens ts ([], MValue))"

section \<open>The host and the transport client\<close>

text \<open>
  The workflow host supplies the credentials, the node parameters of each item and the
  HTTP helper. The remote service is a parameter \<open>http\<close> of every function: given a
  request and the state of the service it answers with the parsed JSON body, or rejects
  with an \<open>Error\<close> whose message is the \<open>Inl\<close> string, and moves to a new state. The
  world records every request issued, in order, and what was written with
  \<open>console.error\<close>.
\<close>

record IOpenCodeCredentials =
  baseUrl :: string
  username :: string
  password :: string

datatype http_method = GET | POST | DELETE

record IHttpRequestOptions =
  req_method :: http_method
  req_url :: string
  req_body :: jsval
  req_timeout :: int
  req_auth :: "string \<times> string"

type_synonym 's http = "IHttpRequestOptions \<Rightarrow> 's \<Rightarrow> (string + jsval) \<times> 's"

record 's world =
  server :: 's
  requests :: "IHttpRequestOptions list"
  console :: "(string \<times> js_error) list"

record INodeExecutionData =
  json :: jsval
  pairedItem :: nat

type_synonym 's handler = "'s world \<Rightarrow> (js_error + INodeExecutionData list) \<times> 's world"

text \<open>The \<open>options\<close> collection and the parameters of one item. A field is \<open>None\<close>
  when the host has no value for it.\<close>

record options =
  o_timeout :: "int option"
  o_trimResponse :: "bool option"
  o_responseKey :: "string option"
  o_agent :: "string option"
  o_messageID :: "string option"
  o_system :: "string option"
  o_noReply :: "bool option"
  o_tools :: "string option"

record params =
  p_resource :: "string option"
  p_operation :: "string option"
  p_sessionMode :: "string option"
  p_sessionId :: "string option"
  p_tempSessionTitle :: "string option"
  p_message :: "string option"
  p_simpleResponse :: "bool option"
  p_model :: "string option"
  p_options :: "options option"
  p_command :: "string option"
  p_commandArguments :: "string option"
  p_shellCommand :: "string option"
  p_shellAgent :: "string option"
  p_skill :: "string option"
  p_skillArguments :: "string option"
  p_limit :: "int option"
  p_targetMessageId :: "string option"
  p_title :: "string option"

record host =
  credentials :: "js_error + IOpenCodeCredentials"
  parameters :: "nat \<Rightarrow> params"
  inputData :: nat
  continueOnFail :: bool

definition no_options :: options where
  "no_options = \<lparr>o_timeout = None, o_trimResponse = None, o_responseKey = None, o_agent = None,
     o_messageID = None, o_system = None, o_noReply = None, o_tools = None\<rparr>"

definition getNodeParameter :: "'a option \<Rightarrow> 'a \<Rightarrow> 'a" where
  \<comment> \<open>\<open>this.getNodeParameter(name, itemIndex, fallback)\<close>\<close>
  "getNodeParameter v fallback = (case v of None \<Rightarrow> fallback | Some x \<Rightarrow> x)"

definition requireNodeParameter :: "'a option \<Rightarrow> js_error + 'a" where
  \<comment> \<open>\<open>this.getNodeParameter(name, itemIndex)\<close>: the host throws when there is no value\<close>
  "requireNodeParameter v =
     (case v of None \<Rightarrow> Inl (Error ''Could not get parameter'') | Some x \<Rightarrow> Inr x)"

definition nullish_or :: "'a option \<Rightarrow> 'a \<Rightarrow> 'a" where
  \<comment> \<open>\<open>v ?? d\<close>\<close>
  "nullish_or v d = (case v of None \<Rightarrow> d | Some x \<Rightarrow> x)"

definition string_or :: "string option \<Rightarrow> string \<Rightarrow> string" where
  \<comment> \<open>\<open>(v as string) || d\<close>\<close>
  "string_or v d = (case v of None \<Rightarrow> d | Some x \<Rightarrow> if x = [] then d else x)"

definition try_finally ::
  "('e + 'a) \<times> 'w \<Rightarrow> ('w \<Rightarrow> ('e + unit) \<times> 'w) \<Rightarrow> ('e + 'a) \<times> 'w" where
  \<comment> \<open>\<open>try { ... } finally { ... }\<close>: an error of the finally block replaces the outcome\<close>
  "try_finally r fin =
     (case r of (res, w) \<Rightarrow>
        (case fin w of (Inl e, w') \<Rightarrow> (Inl e, w') | (Inr u, w') \<Rightarrow> (res, w')))"

subsection \<open>helpers/api\<close>

definition openCodeApiRequest ::
  "'s http \<Rightarrow> IOpenCodeCredentials \<Rightarrow> http_method \<Rightarrow> string \<Rightarrow> jsval \<Rightarrow> int option
     \<Rightarrow> 's world \<Rightarrow> (js_error + jsval) \<times> 's world" where
  "openCodeApiRequest http creds method endpoint body timeout w =
     (let requestOptions =
            \<lparr>req_method = method,
             req_url = baseUrl creds @ endpoint,
             req_body = body,
             req_timeout = nullish_or timeout 300000,
             req_auth = (username creds, password creds)\<rparr>
      in (case http requestOptions (server w) of (r, s') \<Rightarrow>
            (let w' = w\<lparr>server := s', requests := requests w @ [requestOptions]\<rparr>
             in (case r of
                   Inr response \<Rightarrow> (Inr response, w')
                 | Inl msg \<Rightarrow>
                     (Inl (Error (''OpenCode API request failed: ''
                                  @ (if msg = [] then ''Unknown error'' else msg))), w')))))"

definition getCredentials :: "host \<Rightarrow> js_error + IOpenCodeCredentials" where
  "getCredentials h = credentials h"

definition createSession ::
  "'s http \<Rightarrow> IOpenCodeCredentials \<Rightarrow> string \<Rightarrow> 's world \<Rightarrow> (js_error + jsval) \<times> 's world" where
  "createSession http creds title w =
     (case openCodeApiRequest http creds POST ''/session''
             (obj_lit [(''title'', JString title)]) None w of
        (Inl e, w') \<Rightarrow> (Inl e, w')
      | (Inr response, w') \<Rightarrow> (js_get response ''id'', w'))"

definition deleteSession ::
  "'s http \<Rightarrow> IOpenCodeCredentials \<Rightarrow> jsval \<Rightarrow> 's world \<Rightarrow> (js_error + unit) \<times> 's world" where
  "deleteSession http creds sessionId w =
     (case openCodeApiRequest http creds DELETE (''/session/'' @ ToString sessionId)
             JUndefined None w of
        (Inr response, w') \<Rightarrow> (Inr (), w')
      | (Inl error, w') \<Rightarrow>
          (Inr (), w'\<lparr>console := console w'
                     @ [(''Failed to delete session '' @ ToString sessionId @ '':'', error)]\<rparr>))"

text \<open>
  The block every message-sending action starts with: in temporary mode a session is
  created and marked for deletion, otherwise the \<open>sessionId\<close> parameter is read. Then
  the action runs in a \<open>try\<close> whose \<open>finally\<close> deletes the session when it is marked.
  The source repeats both in each action; the model shares them as \<open>openSession\<close>,
  \<open>closeSession\<close> and \<open>with_session\<close>.
\<close>

definition openSession ::
  "'s http \<Rightarrow> IOpenCodeCredentials \<Rightarrow> params \<Rightarrow> string \<Rightarrow> 's world
     \<Rightarrow> (js_error + jsval \<times> bool) \<times> 's world" where
  "openSession http creds p sessionMode w =
     (if sessionMode = ''temporary'' then
        (case createSession http creds
                (getNodeParameter (p_tempSessionTitle p) ''Temporary Chat Session'') w of
           (Inl e, w') \<Rightarrow> (Inl e, w')
         | (Inr sessionId, w') \<Rightarrow> (Inr (sessionId, True), w'))
      else
        (case requireNodeParameter (p_sessionId p) of
           Inl e \<Rightarrow> (Inl e, w)
         | Inr sessionId \<Rightarrow> (Inr (JString sessionId, False), w)))"

definition closeSession ::
  "'s http \<Rightarrow> IOpenCodeCredentials \<Rightarrow> jsval \<Rightarrow> bool \<Rightarrow> 's world \<Rightarrow> (js_error + unit) \<times> 's world" where
  \<comment> \<open>the \<open>finally\<close> block: \<open>if (shouldDeleteSession) await deleteSession(...)\<close>\<close>
  "closeSession http creds sessionId shouldDeleteSession w =
     (if shouldDeleteSession then deleteSession http creds sessionId w else (Inr (), w))"

definition with_session ::
  "'s http \<Rightarrow> IOpenCodeCredentials \<Rightarrow> params \<Rightarrow> string \<Rightarrow> (jsval \<Rightarrow> bool \<Rightarrow> 's handler)
     \<Rightarrow> 's handler" where
  \<comment> \<open>\<open>try { body } finally { if (shouldDeleteSession) await deleteSession(...) }\<close>
      after the session block\<close>
  "with_session http creds p sessionMode body w =
     (case openSession http creds p sessionMode w of
        (Inl e, w1) \<Rightarrow> (Inl e, w1)
      | (Inr (sessionId, shouldDeleteSession), w1) \<Rightarrow>
          try_finally (body sessionId shouldDeleteSession w1)
            (closeSession http creds sessionId shouldDeleteSession))"

section \<open>Message actions\<close>

subsection \<open>Building the payload\<close>

definition nth_js :: "string list \<Rightarrow> nat \<Rightarrow> jsval" where
  \<comment> \<open>an element of a destructured array; \<open>undefined\<close> past its end\<close>
  "nth_js xs i = (if i < length xs then JString (xs ! i) else JUndefined)"

definition model_fields :: "string \<Rightarrow> (string \<times> jsval) list" where
  \<comment> \<open>\<open>if (model && model.includes('::')) { const [providerID, modelID] = model.split('::');
      payload.model = { providerID, modelID }; }\<close>\<close>
  "model_fields model =
     (if model \<noteq> [] \<and> str_includes model ''::'' then
        (let xs = str_split model ''::''
         in [(''model'', obj_lit [(''providerID'', nth_js xs 0), (''modelID'', nth_js xs 1)])])
      else [])"

definition string_field :: "string \<Rightarrow> string \<Rightarrow> (string \<times> jsval) list" where
  \<comment> \<open>\<open>if (v) payload.k = v\<close>\<close>
  "string_field k v = (if v \<noteq> [] then [(k, JString v)] else [])"

definition tools_field :: "string \<Rightarrow> (string \<times> jsval) list" where
  \<comment> \<open>\<open>if (toolsJson) { try { payload.tools = JSON.parse(toolsJson) } catch {} }\<close>\<close>
  "tools_field toolsJson =
     (if toolsJson \<noteq> [] then
        (case JSON_parse toolsJson of Some v \<Rightarrow> [(''tools'', v)] | None \<Rightarrow> [])
      else [])"

definition text_parts_field :: "string \<Rightarrow> (string \<times> jsval) list" where
  \<comment> \<open>\<open>parts: [{ type: 'text', text }]\<close>\<close>
  "text_parts_field text =
     [(''parts'', JArray [obj_lit [(''type'', JString ''text''), (''text'', JString text)]])]"

definition message_payload :: "string \<Rightarrow> string \<Rightarrow> options \<Rightarrow> jsval" where
  \<comment> \<open>the payload of send and sendAsync\<close>
  "message_payload message model opts =
     obj_lit (text_parts_field message
              @ model_fields model
              @ string_field ''agent'' (string_or (o_agent opts) [])
              @ string_field ''messageID'' (string_or (o_messageID opts) [])
              @ string_field ''system'' (string_or (o_system opts) [])
              @ (if nullish_or (o_noReply opts) False then [(''noReply'', JBool True)] else [])
              @ tools_field (string_or (o_tools opts) []))"

subsection \<open>Flattening the response\<close>

fun filter_type :: "string \<Rightarrow> jsval list \<Rightarrow> js_error + jsval list" where
  \<comment> \<open>\<open>.filter((p) => p.type === t)\<close>\<close>
  "filter_type t [] = Inr []"
| "filter_type t (p # ps) =
     (case js_get p ''type'' of
        Inl e \<Rightarrow> Inl e
      | Inr ty \<Rightarrow>
          (case filter_type t ps of
             Inl e \<Rightarrow> Inl e
           | Inr qs \<Rightarrow> Inr (if ty = JString t then p # qs else qs)))"

fun map_text :: "jsval list \<Rightarrow> js_error + jsval list" where
  \<comment> \<open>\<open>.map((p) => p.text || '')\<close>\<close>
  "map_text [] = Inr []"
| "map_text (p # ps) =
     (case js_get p ''text'' of
        Inl e \<Rightarrow> Inl e
      | Inr t \<Rightarrow>
          (case map_text ps of
             Inl e \<Rightarrow> Inl e
           | Inr ts \<Rightarrow> Inr (js_or t (JString []) # ts)))"

definition response_text :: "jsval \<Rightarrow> js_error + string" where
  \<comment> \<open>\<open>(response.parts || []).filter(...).map(...).join('\\n')\<close>\<close>
  "response_text response =
     (case js_get response ''parts'' of
        Inl e \<Rightarrow> Inl e
      | Inr parts \<Rightarrow>
          (case js_or parts (JArray []) of
             JArray xs \<Rightarrow>
               (case filter_type ''text'' xs of
                  Inl e \<Rightarrow> Inl e
                | Inr ys \<Rightarrow>
                    (case map_text ys of
                       Inl e \<Rightarrow> Inl e
                     | Inr ts \<Rightarrow> Inr (array_join ts [CHR 0x0A])))
           | other \<Rightarrow> Inl (TypeError ''(response.parts || []).filter is not a function'')))"

definition apply_trim :: "bool \<Rightarrow> string \<Rightarrow> string" where
  \<comment> \<open>\<open>if (trimResponse) responseText = responseText.trim()\<close>\<close>
  "apply_trim trimResponse text = (if trimResponse then trim text else text)"

definition responseText_of :: "options \<Rightarrow> jsval \<Rightarrow> js_error + string" where
  \<comment> \<open>the flattened text, trimmed when \<open>options.trimResponse ?? true\<close>\<close>
  "responseText_of opts response =
     (case response_text response of
        Inl e \<Rightarrow> Inl e
      | Inr joined \<Rightarrow> Inr (apply_trim (nullish_or (o_trimResponse opts) True) joined))"

definition info_field :: "jsval \<Rightarrow> string \<Rightarrow> jsval" where
  \<comment> \<open>\<open>response.info?.k\<close>, read after \<open>response.parts\<close> was read, so \<open>response\<close> is not
      \<open>null\<close> or \<open>undefined\<close>\<close>
  "info_field response k =
     (let info = js_get_opt response ''info''
      in if nullish info then JUndefined else js_get_opt info k)"

definition metadata_fields :: "jsval \<Rightarrow> jsval \<Rightarrow> (string \<times> jsval) list" where
  "metadata_fields response sessionId =
     [(''messageId'', info_field response ''id''),
      (''sessionId'', js_or (info_field response ''sessionID'') sessionId),
      (''model'', info_field response ''modelID''),
      (''provider'', info_field response ''providerID''),
      (''tokens'', info_field response ''tokens''),
      (''cost'', info_field response ''cost'')]"

definition item :: "jsval \<Rightarrow> nat \<Rightarrow> INodeExecutionData" where
  "item j itemIndex = \<lparr>json = j, pairedItem = itemIndex\<rparr>"

subsection \<open>send\<close>

definition sendMessage_result ::
  "nat \<Rightarrow> bool \<Rightarrow> options \<Rightarrow> jsval \<Rightarrow> bool \<Rightarrow> jsval \<Rightarrow> js_error + INodeExecutionData list" where
  \<comment> \<open>what the \<open>try\<close> block does with the response\<close>
  "sendMessage_result itemIndex simpleResponse opts sessionId shouldDeleteSession response =
     (case responseText_of opts response of
        Inl e \<Rightarrow> Inl e
      | Inr responseText \<Rightarrow>
          (let responseKey = string_or (o_responseKey opts) ''response''
           in if simpleResponse then
                (case JSON_parse responseText of
                   Some parsedJson \<Rightarrow> Inr [item parsedJson itemIndex]
                 | None \<Rightarrow> Inr [item (obj_lit [(responseKey, JString responseText)]) itemIndex])
              else
                Inr [item (obj_lit (metadata_fields response sessionId
                                    @ [(''wasTemporarySession'', JBool shouldDeleteSession),
                                       (responseKey, JString responseText),
                                       (''parts'', js_get_opt response ''parts'')]))
                          itemIndex]))"

definition sendMessage_try ::
  "'s http \<Rightarrow> IOpenCodeCredentials \<Rightarrow> nat \<Rightarrow> string \<Rightarrow> bool \<Rightarrow> string \<Rightarrow> options
     \<Rightarrow> jsval \<Rightarrow> bool \<Rightarrow> 's handler" where
  "sendMessage_try http creds itemIndex message simpleResponse model opts
       sessionId shouldDeleteSession w =
     (case openCodeApiRequest http creds POST
             (''/session/'' @ ToString sessionId @ ''/message'')
             (message_payload message model opts)
             (Some (nullish_or (o_timeout opts) 300000)) w of
        (Inl e, w') \<Rightarrow> (Inl e, w')
      | (Inr response, w') \<Rightarrow>
          (sendMessage_result itemIndex simpleResponse opts sessionId shouldDeleteSession
             response, w'))"

definition sendMessage :: "'s http \<Rightarrow> host \<Rightarrow> nat \<Rightarrow> 's handler" where
  "sendMessage http h itemIndex w =
     (case getCredentials h of
        Inl e \<Rightarrow> (Inl e, w)
      | Inr creds \<Rightarrow>
          (let p = parameters h itemIndex;
               sessionMode = getNodeParameter (p_sessionMode p) ''existing''
           in case requireNodeParameter (p_message p) of
                Inl e \<Rightarrow> (Inl e, w)
              | Inr message \<Rightarrow>
                  (let simpleResponse = getNodeParameter (p_simpleResponse p) False;
                       model = getNodeParameter (p_model p) [];
                       opts = getNodeParameter (p_options p) no_options
                   in with_session http creds p sessionMode
                          (sendMessage_try http creds itemIndex message simpleResponse model opts) w)))"

subsection \<open>sendAsync\<close>

definition sendMessageAsync_try ::
  "'s http \<Rightarrow> IOpenCodeCredentials \<Rightarrow> nat \<Rightarrow> string \<Rightarrow> string \<Rightarrow> options
     \<Rightarrow> jsval \<Rightarrow> bool \<Rightarrow> 's handler" where
  "sendMessageAsync_try http creds itemIndex message model opts sessionId shouldDeleteSession w =
     (case openCodeApiRequest http creds POST
             (''/session/'' @ ToString sessionId @ ''/prompt_async'')
             (message_payload message model opts)
             (Some (nullish_or (o_timeout opts) 300000)) w of
        (Inl e, w') \<Rightarrow> (Inl e, w')
      | (Inr response, w') \<Rightarrow>
          (Inr [item (obj_lit [(''success'', JBool True),
                               (''message'', JString ''Message sent successfully (async)''),
                               (''sessionId'', sessionId),
                               (''wasTemporarySession'', JBool shouldDeleteSession)])
                     itemIndex], w'))"

definition sendMessageAsync :: "'s http \<Rightarrow> host \<Rightarrow> nat \<Rightarrow> 's handler" where
  "sendMessageAsync http h itemIndex w =
     (case getCredentials h of
        Inl e \<Rightarrow> (Inl e, w)
      | Inr creds \<Rightarrow>
          (let p = parameters h itemIndex;
               sessionMode = getNodeParameter (p_sessionMode p) ''existing''
           in case requireNodeParameter (p_message p) of
                Inl e \<Rightarrow> (Inl e, w)
              | Inr message \<Rightarrow>
                  (let model = getNodeParameter (p_model p) [];
                       opts = getNodeParameter (p_options p) no_options
                   in with_session http creds p sessionMode
                          (sendMessageAsync_try http creds itemIndex message model opts) w)))"

subsection \<open>command\<close>

text \<open>
  The source holds two versions of \<open>executeCommand\<close> (the unnamed files 003 and 004).
  They differ in the payload only: 003 parses \<open>commandArguments\<close> as JSON and wraps a
  string that does not parse, and sends the model as an object; 004 sends the arguments
  as the string they are and the model as \<open>providerID/modelID\<close>.
\<close>

definition command_payload_003 :: "string \<Rightarrow> string \<Rightarrow> string \<Rightarrow> options \<Rightarrow> jsval" where
  "command_payload_003 command commandArguments model opts =
     obj_lit ([(''command'', JString command)]
              @ [(''arguments'',
                  (if commandArguments \<noteq> [] then
                     (case JSON_parse commandArguments of
                        Some v \<Rightarrow> v
                      | None \<Rightarrow> obj_lit [(''input'', JString commandArguments)])
                   else obj_lit []))]
              @ string_field ''messageID'' (string_or (o_messageID opts) [])
              @ string_field ''agent'' (string_or (o_agent opts) [])
              @ model_fields model)"

definition command_payload_004 :: "string \<Rightarrow> string \<Rightarrow> string \<Rightarrow> options \<Rightarrow> jsval" where
  "command_payload_004 command commandArguments model opts =
     obj_lit ([(''command'', JString command),
               (''arguments'', JString commandArguments)]
              @ string_field ''messageID'' (string_or (o_messageID opts) [])
              @ string_field ''agent'' (string_or (o_agent opts) [])
              @ (if model \<noteq> [] \<and> str_includes model ''::''
                 then [(''model'', JString (replace_first model ''::'' ''/''))] else []))"

definition executeCommand_result ::
  "nat \<Rightarrow> string \<Rightarrow> options \<Rightarrow> jsval \<Rightarrow> bool \<Rightarrow> jsval \<Rightarrow> js_error + INodeExecutionData list" where
  "executeCommand_result itemIndex command opts sessionId shouldDeleteSession response =
     (case responseText_of opts response of
        Inl e \<Rightarrow> Inl e
      | Inr responseText \<Rightarrow>
          (let responseKey = string_or (o_responseKey opts) ''response''
           in Inr [item (obj_lit (metadata_fields response sessionId
                                  @ [(''command'', JString command),
                                     (''wasTemporarySession'', JBool shouldDeleteSession),
                                     (responseKey, JString responseText),
                                     (''parts'', js_get_opt response ''parts'')]))
                        itemIndex]))"

definition executeCommand_try ::
  "'s http \<Rightarrow> IOpenCodeCredentials \<Rightarrow> nat \<Rightarrow> string \<Rightarrow> jsval \<Rightarrow> options
     \<Rightarrow> jsval \<Rightarrow> bool \<Rightarrow> 's handler" where
  "executeCommand_try http creds itemIndex command payload opts sessionId shouldDeleteSession w =
     (case openCodeApiRequest http creds POST
             (''/session/'' @ ToString sessionId @ ''/command'')
             payload
             (Some (nullish_or (o_timeout opts) 300000)) w of
        (Inl e, w') \<Rightarrow> (Inl e, w')
      | (Inr response, w') \<Rightarrow>
          (executeCommand_result itemIndex command opts sessionId shouldDeleteSession response,
           w'))"

definition executeCommand_with ::
  "(string \<Rightarrow> string \<Rightarrow> string \<Rightarrow> options \<Rightarrow> jsval) \<Rightarrow> 's http \<Rightarrow> host \<Rightarrow> nat \<Rightarrow> 's handler" where
  "executeCommand_with build http h itemIndex w =
     (case getCredentials h of
        Inl e \<Rightarrow> (Inl e, w)
      | Inr creds \<Rightarrow>
          (let p = parameters h itemIndex;
               sessionMode = getNodeParameter (p_sessionMode p) ''existing''
           in case requireNodeParameter (p_command p) of
                Inl e \<Rightarrow> (Inl e, w)
              | Inr command \<Rightarrow>
                  (let commandArguments = getNodeParameter (p_commandArguments p) [];
                       model = getNodeParameter (p_model p) [];
                       opts = getNodeParameter (p_options p) no_options
                   in with_session http creds p sessionMode
                          (executeCommand_try http creds itemIndex command (build command commandArguments model opts) opts) w)))"

definition executeCommand_003 :: "'s http \<Rightarrow> host \<Rightarrow> nat \<Rightarrow> 's handler" where
  "executeCommand_003 = executeCommand_with command_payload_003"

definition executeCommand_004 :: "'s http \<Rightarrow> host \<Rightarrow> nat \<Rightarrow> 's handler" where
  "executeCommand_004 = executeCommand_with command_payload_004"

subsection \<open>shell\<close>

definition tool_output :: "jsval \<Rightarrow> jsval" where
  \<comment> \<open>\<open>part.state.output || part.state.metadata?.output || ''\<close>, for a truthy \<open>state\<close>\<close>
  "tool_output state =
     js_or (js_or (js_get_opt state ''output'')
                  (let metadata = js_get_opt state ''metadata''
                   in if nullish metadata then JUndefined else js_get_opt metadata ''output''))
           (JString [])"

fun shell_loop :: "jsval list \<Rightarrow> string \<Rightarrow> js_error + string" where
  \<comment> \<open>\<open>for (const part of parts) { if (part.type === 'tool' && part.state) { ... } }\<close>\<close>
  "shell_loop [] shellOutput = Inr shellOutput"
| "shell_loop (part # parts) shellOutput =
     (case js_get part ''type'' of
        Inl e \<Rightarrow> Inl e
      | Inr ty \<Rightarrow>
          (if ty = JString ''tool'' \<and> truthy (js_get_opt part ''state'') then
             (let output = tool_output (js_get_opt part ''state'')
              in if truthy output then shell_loop parts (shellOutput @ ToString output)
                 else shell_loop parts shellOutput)
           else shell_loop parts shellOutput))"

definition shell_output :: "jsval \<Rightarrow> js_error + string" where
  \<comment> \<open>a string is iterable, and none of its characters is a tool part\<close>
  "shell_output response =
     (case js_get response ''parts'' of
        Inl e \<Rightarrow> Inl e
      | Inr parts \<Rightarrow>
          (case js_or parts (JArray []) of
             JArray xs \<Rightarrow> shell_loop xs []
           | JString str \<Rightarrow> Inr []
           | other \<Rightarrow> Inl (TypeError ''parts is not iterable'')))"

definition shellOutput_of :: "options \<Rightarrow> jsval \<Rightarrow> js_error + string" where
  "shellOutput_of opts response =
     (case shell_output response of
        Inl e \<Rightarrow> Inl e
      | Inr collected \<Rightarrow> Inr (apply_trim (nullish_or (o_trimResponse opts) True) collected))"

definition executeShell_result ::
  "nat \<Rightarrow> string \<Rightarrow> string \<Rightarrow> bool \<Rightarrow> options \<Rightarrow> jsval \<Rightarrow> bool \<Rightarrow> jsval
     \<Rightarrow> js_error + INodeExecutionData list" where
  "executeShell_result itemIndex shellCommand agent simpleResponse opts sessionId
       shouldDeleteSession response =
     (case shellOutput_of opts response of
        Inl e \<Rightarrow> Inl e
      | Inr shellOutput \<Rightarrow>
          (let responseKey = string_or (o_responseKey opts) ''response''
           in if simpleResponse then
                Inr [item (obj_lit [(responseKey, JString shellOutput)]) itemIndex]
              else
                Inr [item (obj_lit (metadata_fields response sessionId
                                    @ [(''command'', JString shellCommand),
                                       (''agent'', JString agent),
                                       (''wasTemporarySession'', JBool shouldDeleteSession),
                                       (responseKey, JString shellOutput),
                                       (''parts'', js_get_opt response ''parts'')]))
                          itemIndex]))"

definition executeShell_try ::
  "'s http \<Rightarrow> IOpenCodeCredentials \<Rightarrow> nat \<Rightarrow> string \<Rightarrow> string \<Rightarrow> string \<Rightarrow> bool
     \<Rightarrow> options \<Rightarrow> jsval \<Rightarrow> bool \<Rightarrow> 's handler" where
  "executeShell_try http creds itemIndex shellCommand agent model simpleResponse opts
       sessionId shouldDeleteSession w =
     (case openCodeApiRequest http creds POST
             (''/session/'' @ ToString sessionId @ ''/shell'')
             (obj_lit ([(''command'', JString shellCommand), (''agent'', JString agent)]
                       @ model_fields model))
             (Some (nullish_or (o_timeout opts) 300000)) w of
        (Inl e, w') \<Rightarrow> (Inl e, w')
      | (Inr response, w') \<Rightarrow>
          (executeShell_result itemIndex shellCommand agent simpleResponse opts sessionId
             shouldDeleteSession response, w'))"

definition executeShell :: "'s http \<Rightarrow> host \<Rightarrow> nat \<Rightarrow> 's handler" where
  "executeShell http h itemIndex w =
     (case getCredentials h of
        Inl e \<Rightarrow> (Inl e, w)
      | Inr creds \<Rightarrow>
          (let p = parameters h itemIndex;
               sessionMode = getNodeParameter (p_sessionMode p) ''existing''
           in case requireNodeParameter (p_shellCommand p) of
                Inl e \<Rightarrow> (Inl e, w)
              | Inr shellCommand \<Rightarrow>
                  (case requireNodeParameter (p_shellAgent p) of
                     Inl e \<Rightarrow> (Inl e, w)
                   | Inr agent \<Rightarrow>
                       (let model = getNodeParameter (p_model p) [];
                            simpleResponse = getNodeParameter (p_simpleResponse p) False;
                            opts = getNodeParameter (p_options p) no_options
                        in with_session http creds p sessionMode
                               (executeShell_try http creds itemIndex shellCommand agent model simpleResponse opts) w))))"

subsection \<open>skill\<close>

definition skill_payload :: "string \<Rightarrow> string \<Rightarrow> string \<Rightarrow> options \<Rightarrow> jsval" where
  "skill_payload skill skillArguments model opts =
     obj_lit (text_parts_field (if skillArguments \<noteq> [] then ''/'' @ skill @ '' '' @ skillArguments
                                else ''/'' @ skill)
              @ string_field ''messageID'' (string_or (o_messageID opts) [])
              @ string_field ''agent'' (string_or (o_agent opts) [])
              @ model_fields model)"

definition executeSkill_result ::
  "nat \<Rightarrow> string \<Rightarrow> string \<Rightarrow> options \<Rightarrow> jsval \<Rightarrow> bool \<Rightarrow> jsval
     \<Rightarrow> js_error + INodeExecutionData list" where
  "executeSkill_result itemIndex skill skillArguments opts sessionId shouldDeleteSession response =
     (case responseText_of opts response of
        Inl e \<Rightarrow> Inl e
      | Inr responseText \<Rightarrow>
          (let responseKey = string_or (o_responseKey opts) ''response''
           in Inr [item (obj_lit (metadata_fields response sessionId
                                  @ [(''skill'', JString skill),
                                     (''skillArguments'', JString skillArguments),
                                     (''wasTemporarySession'', JBool shouldDeleteSession),
                                     (responseKey, JString responseText),
                                     (''parts'', js_get_opt response ''parts'')]))
                        itemIndex]))"

definition executeSkill_try ::
  "'s http \<Rightarrow> IOpenCodeCredentials \<Rightarrow> nat \<Rightarrow> string \<Rightarrow> string \<Rightarrow> string \<Rightarrow> options
     \<Rightarrow> jsval \<Rightarrow> bool \<Rightarrow> 's handler" where
  "executeSkill_try http creds itemIndex skill skillArguments model opts
       sessionId shouldDeleteSession w =
     (case openCodeApiRequest http creds POST
             (''/session/'' @ ToString sessionId @ ''/message'')
             (skill_payload skill skillArguments model opts)
             (Some (nullish_or (o_timeout opts) 300000)) w of
        (Inl e, w') \<Rightarrow> (Inl e, w')
      | (Inr response, w') \<Rightarrow>
          (executeSkill_result itemIndex skill skillArguments opts sessionId
             shouldDeleteSession response, w'))"

definition executeSkill :: "'s http \<Rightarrow> host \<Rightarrow> nat \<Rightarrow> 's handler" where
  "executeSkill http h itemIndex w =
     (case getCredentials h of
        Inl e \<Rightarrow> (Inl e, w)
      | Inr creds \<Rightarrow>
          (let p = parameters h itemIndex;
               sessionMode = getNodeParameter (p_sessionMode p) ''existing''
           in case requireNodeParameter (p_skill p) of
                Inl e \<Rightarrow> (Inl e, w)
              | Inr skill \<Rightarrow>
                  (let skillArguments = getNodeParameter (p_skillArguments p) [];
                       model = getNodeParameter (p_model p) [];
                       opts = getNodeParameter (p_options p) no_options
                   in with_session http creds p sessionMode
                          (executeSkill_try http creds itemIndex skill skillArguments model opts) w)))"

subsection \<open>list and get\<close>

definition list_queryString :: "int \<Rightarrow> string" where
  \<comment> \<open>\<open>limit\<close> goes into the query when \<open>limit && limit > 0\<close>\<close>
  "list_queryString limit =
     (if limit \<noteq> 0 \<and> limit > 0 then ''?limit='' @ int_to_string limit else [])"

definition listMessages :: "'s http \<Rightarrow> host \<Rightarrow> nat \<Rightarrow> 's handler" where
  "listMessages http h itemIndex w =
     (case getCredentials h of
        Inl e \<Rightarrow> (Inl e, w)
      | Inr creds \<Rightarrow>
          (case requireNodeParameter (p_sessionId (parameters h itemIndex)) of
             Inl e \<Rightarrow> (Inl e, w)
           | Inr sessionId \<Rightarrow>
               (let limit = getNodeParameter (p_limit (parameters h itemIndex)) 50
                in case openCodeApiRequest http creds GET
                          (''/session/'' @ sessionId @ ''/message'' @ list_queryString limit)
                          JUndefined None w of
                     (Inl e, w') \<Rightarrow> (Inl e, w')
                   | (Inr response, w') \<Rightarrow>
                       (let messages = (case response of JArray xs \<Rightarrow> xs | other \<Rightarrow> [])
                        in if length messages = 0 then
                             (Inr [item (obj_lit [(''messages'', JArray []),
                                                  (''count'', JNumber 0 0),
                                                  (''sessionId'', JString sessionId)])
                                        itemIndex], w')
                           else (Inr (map (\<lambda>msg. item msg itemIndex) messages), w')))))"


section \<open>Session and config actions\<close>







section \<open>Dispatch and the item loop\<close>








section \<open>Dynamic option providers\<close>






subsection \<open>getSessions\<close>




subsection \<open>getModels\<close>



definition selector_value :: "jsval \<Rightarrow> jsval \<Rightarrow> string" where
  \<comment> \<open>the template \<open>`${provider.id}::${model.id}`\<close>\<close>
  "selector_value providerID modelID = ToString providerID @ ''::'' @ ToString modelID"






subsection \<open>getAgents\<close>







subsection \<open>getCommands\<close>




subsection \<open>getSkills\<close>

text \<open>
  The skills come from the file system. \<open>scanSkillDirectory\<close> catches every error of its
  own and returns the skills of one directory; here it is the field \<open>scan\<close> of the
  environment, with the home directory, the working directory (either call may throw)
  and the collation order of \<open>localeCompare\<close>.
\<close>

record ISkillInfo =
  sk_name :: string
  sk_description :: string
  sk_path :: string










section \<open>The chat-model adapter\<close>

definition generate_responseText :: "jsval \<Rightarrow> js_error + string" where
  \<comment> \<open>\<open>ChatOpenCode._generate\<close>: the same flattening, always trimmed\<close>
  "generate_responseText data =
     (case response_text data of Inl e \<Rightarrow> Inl e | Inr joined \<Rightarrow> Inr (trim joined))"

section \<open>Responses that follow the declared interfaces\<close>

text \<open>
  The casts of the handlers (\<open>as ISendMessageResponse\<close>) promise the shapes of
  types/index.ts. \<open>typed_part\<close> is a part whose \<open>text\<close>, when present, is a string;
  \<open>typed_tool_part\<close> one whose \<open>state\<close>, when present, is an object whose \<open>output\<close>
  and \<open>metadata.output\<close>, when present, are strings. \<open>part_text\<close> and
  \<open>tool_part_output\<close> say what a claim says of one part.
\<close>

fun typed_part :: "jsval \<Rightarrow> bool" where
  "typed_part (JObject fs) =
     (case map_of fs ''text'' of
        None \<Rightarrow> True
      | Some (JString s) \<Rightarrow> True
      | Some JUndefined \<Rightarrow> True
      | Some other \<Rightarrow> False)"
| "typed_part v = False"

definition part_type_is :: "string \<Rightarrow> jsval \<Rightarrow> bool" where
  "part_type_is t p = (js_get_opt p ''type'' = JString t)"

definition part_text :: "jsval \<Rightarrow> string" where
  \<comment> \<open>the \<open>text\<close> field, an absent one giving the empty string\<close>
  "part_text p = (case js_get_opt p ''text'' of JString s \<Rightarrow> s | other \<Rightarrow> [])"

definition sample_parts :: "jsval list" where
  "sample_parts =
     [obj_lit [(''type'', JString ''text''), (''text'', JString '' a '')],
      obj_lit [(''type'', JString ''tool'')],
      obj_lit [(''type'', JString ''text'')],
      obj_lit [(''type'', JString ''text''), (''text'', JString ''b'')]]"

fun opt_string :: "jsval \<Rightarrow> bool" where
  "opt_string JUndefined = True"
| "opt_string (JString s) = True"
| "opt_string v = False"

fun is_object :: "jsval \<Rightarrow> bool" where
  "is_object (JObject fs) = True"
| "is_object v = False"

definition typed_state :: "jsval \<Rightarrow> bool" where
  "typed_state st =
     (st = JUndefined \<or>
      (is_object st \<and> opt_string (js_get_opt st ''output'')
       \<and> (js_get_opt st ''metadata'' = JUndefined
            \<or> (is_object (js_get_opt st ''metadata'')
                 \<and> opt_string (js_get_opt (js_get_opt st ''metadata'') ''output'')))))"

definition typed_tool_part :: "jsval \<Rightarrow> bool" where
  "typed_tool_part p = (is_object p \<and> typed_state (js_get_opt p ''state''))"

definition string_of :: "jsval \<Rightarrow> string" where
  "string_of v = (case v of JString s \<Rightarrow> s | other \<Rightarrow> [])"

definition tool_part_output :: "jsval \<Rightarrow> string" where
  \<comment> \<open>\<open>state.output\<close>, or \<open>state.metadata.output\<close> when that is absent or empty\<close>
  "tool_part_output p =
     (let st = js_get_opt p ''state''
      in if string_of (js_get_opt st ''output'') \<noteq> [] then string_of (js_get_opt st ''output'')
         else string_of (js_get_opt (js_get_opt st ''metadata'') ''output''))"

definition tool_parts :: "jsval list" where
  "tool_parts =
     [obj_lit [(''type'', JString ''tool''),
               (''state'', obj_lit [(''output'', JString ''done'')])],
      obj_lit [(''type'', JString ''text''), (''text'', JString ''said'')],
      obj_lit [(''type'', JString ''tool''),
               (''state'', obj_lit [(''output'', JString []),
                                    (''metadata'', obj_lit [(''output'', JString ''!'')])])]]"

section \<open>Scenarios\<close>

text \<open>Concrete hosts and services, for the scenarios of the specification: a service
  that answers every request with one body, a host that gives every item the same
  parameters, and a world in which nothing has happened yet.\<close>

definition scenario_credentials :: IOpenCodeCredentials where
  "scenario_credentials = \<lparr>baseUrl = ''http://127.0.0.1:4096'', username = ''opencode'', password = ''secret''\<rparr>"

definition no_params :: params where
  "no_params = \<lparr>p_resource = None, p_operation = None, p_sessionMode = None, p_sessionId = None,
     p_tempSessionTitle = None, p_message = None, p_simpleResponse = None, p_model = None,
     p_options = None, p_command = None, p_commandArguments = None, p_shellCommand = None,
     p_shellAgent = None, p_skill = None, p_skillArguments = None, p_limit = None,
     p_targetMessageId = None, p_title = None\<rparr>"

definition scenario_host :: "params \<Rightarrow> host" where
  "scenario_host p = \<lparr>credentials = Inr scenario_credentials, parameters = (\<lambda>i. p), inputData = 1, continueOnFail = False\<rparr>"

definition text_response :: "string \<Rightarrow> jsval" where
  "text_response t = obj_lit [(''parts'', JArray [obj_lit [(''type'', JString ''text''), (''text'', JString t)]])]"

definition answering :: "jsval \<Rightarrow> unit http" where
  "answering r = (\<lambda>req s. (Inr r, s))"

definition empty_world :: "unit world" where
  "empty_world = \<lparr>server = (), requests = [], console = []\<rparr>"

definition send_params :: params where
  "send_params = no_params\<lparr>p_sessionId := Some ''s1'', p_message := Some ''2+2?'', p_simpleResponse := Some True\<rparr>"

definition command_params :: params where
  "command_params = no_params\<lparr>p_sessionId := Some ''s1'', p_command := Some ''help'', p_commandArguments := Some ''not json''\<rparr>"

definition temp_params :: params where
  "temp_params = no_params\<lparr>p_sessionMode := Some ''temporary'', p_message := Some ''2+2?'',
     p_command := Some ''help'', p_shellCommand := Some ''ls'', p_shellAgent := Some ''build'',
     p_skill := Some ''review''\<rparr>"

definition create_only :: "unit http" where
  \<comment> \<open>a service on which a session can be created and every other request fails\<close>
  "create_only req s =
     (if req_method req = POST \<and> req_url req = ''http://127.0.0.1:4096/session''
      then (Inr (obj_lit [(''id'', JString ''tmp1'')]), s)
      else (Inl ''out of service'', s))"

definition unreachable :: "unit http" where
  "unreachable req s = (Inl ''connect ECONNREFUSED'', s)"

definition list_params :: params where
  "list_params = no_params\<lparr>p_sessionId := Some ''s1''\<rparr>"








section \<open>The requests of a temporary session\<close>

text \<open>The create and delete requests as \<open>createSession\<close> and \<open>deleteSession\<close> issue
  them, the requests issued between two worlds, and what the claims say of a run in
  temporary-session mode.\<close>

definition create_request :: "IOpenCodeCredentials \<Rightarrow> string \<Rightarrow> IHttpRequestOptions" where
  "create_request creds title =
     \<lparr>req_method = POST, req_url = baseUrl creds @ ''/session'',
      req_body = obj_lit [(''title'', JString title)], req_timeout = 300000,
      req_auth = (username creds, password creds)\<rparr>"

definition delete_request :: "IOpenCodeCredentials \<Rightarrow> jsval \<Rightarrow> IHttpRequestOptions" where
  "delete_request creds sessionId =
     \<lparr>req_method = DELETE, req_url = baseUrl creds @ ''/session/'' @ ToString sessionId,
      req_body = JUndefined, req_timeout = 300000,
      req_auth = (username creds, password creds)\<rparr>"

definition issued :: "'s world \<Rightarrow> 's world \<Rightarrow> IHttpRequestOptions list" where
  "issued w w' = drop (length (requests w)) (requests w')"

definition deletes :: "IHttpRequestOptions list \<Rightarrow> IHttpRequestOptions list" where
  "deletes rs = filter (\<lambda>r. req_method r = DELETE) rs"

definition temp_title :: "params \<Rightarrow> string" where
  "temp_title p = getNodeParameter (p_tempSessionTitle p) ''Temporary Chat Session''"

definition outcome_preserved :: "'s handler \<Rightarrow> 's handler \<Rightarrow> 's world \<Rightarrow> 's world \<Rightarrow> bool" where
  "outcome_preserved action body w w1 = (fst (action w) = fst (body w1))"

definition one_delete :: "IOpenCodeCredentials \<Rightarrow> jsval \<Rightarrow> 's handler \<Rightarrow> 's world \<Rightarrow> bool" where
  "one_delete creds sessionId action w =
     (deletes (issued w (snd (action w))) = [delete_request creds sessionId])"

definition posts_once :: "'s handler \<Rightarrow> bool" where
  "posts_once body = (\<forall>w. \<exists>r. requests (snd (body w)) = requests w @ [r] \<and> req_method r = POST)"

text \<open>The \<open>try\<close> block of each action as the action runs it in temporary mode: with
  the parameters of the item and the session marked for deletion.\<close>

definition sendMessage_body ::
  "'s http \<Rightarrow> host \<Rightarrow> nat \<Rightarrow> IOpenCodeCredentials \<Rightarrow> string \<Rightarrow> jsval \<Rightarrow> 's handler" where
  "sendMessage_body http h i creds msg sid =
     sendMessage_try http creds i msg
       (getNodeParameter (p_simpleResponse (parameters h i)) False)
       (getNodeParameter (p_model (parameters h i)) [])
       (getNodeParameter (p_options (parameters h i)) no_options) sid True"

definition sendMessageAsync_body ::
  "'s http \<Rightarrow> host \<Rightarrow> nat \<Rightarrow> IOpenCodeCredentials \<Rightarrow> string \<Rightarrow> jsval \<Rightarrow> 's handler" where
  "sendMessageAsync_body http h i creds msg sid =
     sendMessageAsync_try http creds i msg
       (getNodeParameter (p_model (parameters h i)) [])
       (getNodeParameter (p_options (parameters h i)) no_options) sid True"

definition executeCommand_body ::
  "(string \<Rightarrow> string \<Rightarrow> string \<Rightarrow> options \<Rightarrow> jsval) \<Rightarrow> 's http \<Rightarrow> host \<Rightarrow> nat
     \<Rightarrow> IOpenCodeCredentials \<Rightarrow> string \<Rightarrow> jsval \<Rightarrow> 's handler" where
  "executeCommand_body build http h i creds c sid =
     executeCommand_try http creds i c
       (build c (getNodeParameter (p_commandArguments (parameters h i)) [])
          (getNodeParameter (p_model (parameters h i)) [])
          (getNodeParameter (p_options (parameters h i)) no_options))
       (getNodeParameter (p_options (parameters h i)) no_options) sid True"

definition executeShell_body ::
  "'s http \<Rightarrow> host \<Rightarrow> nat \<Rightarrow> IOpenCodeCredentials \<Rightarrow> string \<Rightarrow> string \<Rightarrow> jsval \<Rightarrow> 's handler" where
  "executeShell_body http h i creds sc sa sid =
     executeShell_try http creds i sc sa
       (getNodeParameter (p_model (parameters h i)) [])
       (getNodeParameter (p_simpleResponse (parameters h i)) False)
       (getNodeParameter (p_options (parameters h i)) no_options) sid True"

definition executeSkill_body ::
  "'s http \<Rightarrow> host \<Rightarrow> nat \<Rightarrow> IOpenCodeCredentials \<Rightarrow> string \<Rightarrow> jsval \<Rightarrow> 's handler" where
  "executeSkill_body http h i creds sk sid =
     executeSkill_try http creds i sk
       (getNodeParameter (p_skillArguments (parameters h i)) [])
       (getNodeParameter (p_model (parameters h i)) [])
       (getNodeParameter (p_options (parameters h i)) no_options) sid True"

definition after_create :: "unit world" where
  "after_create =
     empty_world\<lparr>requests := [create_request scenario_credentials ''Temporary Chat Session'']\<rparr>"

section \<open>What the list action and the item loop return\<close>

definition messages_of :: "jsval \<Rightarrow> jsval list" where
  \<comment> \<open>\<open>Array.isArray(response) ? response : []\<close>\<close>
  "messages_of response = (case response of JArray xs \<Rightarrow> xs | other \<Rightarrow> [])"

definition list_endpoint :: "string \<Rightarrow> int \<Rightarrow> string" where
  "list_endpoint sessionId limit = ''/session/'' @ sessionId @ ''/message'' @ list_queryString limit"

definition summary_item :: "string \<Rightarrow> nat \<Rightarrow> INodeExecutionData" where
  "summary_item sessionId i =
     item (obj_lit [(''messages'', JArray []), (''count'', JNumber 0 0),
                    (''sessionId'', JString sessionId)]) i"


section \<open>Flattening the text of a response\<close>

lemma typed_part_get: "typed_part p \<Longrightarrow> js_get p k = Inr (js_get_opt p k)"
  by (cases p) (auto simp: js_get_opt_def)

lemma typed_part_text:
  "typed_part p \<Longrightarrow> js_or (js_get_opt p ''text'') (JString []) = JString (part_text p)"
  by (cases p)
     (auto simp: js_get_opt_def js_or_def part_text_def split: option.splits jsval.splits)

lemma filter_type_typed:
  "\<forall>p\<in>set ps. typed_part p \<Longrightarrow> filter_type t ps = Inr (filter (part_type_is t) ps)"
  by (induction ps) (auto simp: typed_part_get part_type_is_def)

lemma map_text_typed:
  "\<forall>p\<in>set ps. typed_part p \<Longrightarrow> map_text ps = Inr (map (\<lambda>p. JString (part_text p)) ps)"
  by (induction ps) (auto simp: typed_part_get typed_part_text)

lemma array_join_strings: "array_join (map (\<lambda>p. JString (f p)) ps) sep = join (map f ps) sep"
  by (simp add: array_join_def comp_def)

lemma response_text_typed:
  assumes "js_get response ''parts'' = Inr (JArray ps)" and "\<forall>p\<in>set ps. typed_part p"
  shows "response_text response =
           Inr (join (map part_text (filter (part_type_is ''text'') ps)) [CHR 0x0A])"
proof -
  have f: "filter_type ''text'' ps = Inr (filter (part_type_is ''text'') ps)"
    using assms(2) by (rule filter_type_typed)
  have m: "map_text (filter (part_type_is ''text'') ps) =
             Inr (map (\<lambda>p. JString (part_text p)) (filter (part_type_is ''text'') ps))"
    using assms(2) by (intro map_text_typed) simp
  show ?thesis
    by (simp add: response_text_def assms(1) js_or_def f m array_join_strings)
qed

lemma generate_responseText_typed:
  assumes "js_get response ''parts'' = Inr (JArray ps)" and "\<forall>p\<in>set ps. typed_part p"
  shows "generate_responseText response =
           Inr (trim (join (map part_text (filter (part_type_is ''text'') ps)) [CHR 0x0A]))"
  by (simp add: generate_responseText_def response_text_typed[OF assms])

text \<open>
  Claim C2: for every send response whose parts list is given (an array of parts of the
  declared shape), the flattened response text is the \<open>text\<close> fields of exactly the
  parts of type \<open>text\<close>, in their order, joined with one newline, an absent \<open>text\<close>
  giving the empty string; it is trimmed exactly when the trim-response option, which
  the action reads as \<open>options.trimResponse ?? true\<close>, is on.
\<close>

theorem send_response_text:
  assumes "js_get response ''parts'' = Inr (JArray ps)" and "\<forall>p\<in>set ps. typed_part p"
  shows "responseText_of opts response =
           Inr (if nullish_or (o_trimResponse opts) True
                then trim (join (map part_text (filter (part_type_is ''text'') ps)) [CHR 0x0A])
                else join (map part_text (filter (part_type_is ''text'') ps)) [CHR 0x0A])"
  by (simp add: responseText_of_def response_text_typed[OF assms] apply_trim_def)

theorem send_response_text_witness:
  "js_get (obj_lit [(''parts'', JArray sample_parts)]) ''parts'' = Inr (JArray sample_parts)
   \<and> list_all typed_part sample_parts
   \<and> responseText_of no_options (obj_lit [(''parts'', JArray sample_parts)]) =
         Inr [CHR ''a'', CHR '' '', CHR 0x0A, CHR 0x0A, CHR ''b'']
   \<and> responseText_of (no_options\<lparr>o_trimResponse := Some False\<rparr>)
           (obj_lit [(''parts'', JArray sample_parts)]) =
         Inr [CHR '' '', CHR ''a'', CHR '' '', CHR 0x0A, CHR 0x0A, CHR ''b'']"
proof -
  have a: "js_get (obj_lit [(''parts'', JArray sample_parts)]) ''parts'' = Inr (JArray sample_parts)"
    by (simp add: obj_lit_def)
  have b: "\<forall>p\<in>set sample_parts. typed_part p"
    by (simp add: sample_parts_def obj_lit_def)
  show ?thesis
    using send_response_text[OF a b, of no_options]
          send_response_text[OF a b, of "no_options\<lparr>o_trimResponse := Some False\<rparr>"] a b
    by (simp add: list_all_iff sample_parts_def no_options_def nullish_or_def part_type_is_def part_text_def
                  js_get_opt_def obj_lit_def trim_def js_whitespace_def)
qed

section \<open>The model selector\<close>

lemma split_from_no_sep:
  "\<not> str_includes m ''::'' \<Longrightarrow> split_from ''::'' acc m = [rev acc @ m]"
  by (induction m arbitrary: acc) auto

lemma str_includes_sep: "str_includes (p @ ''::'' @ m) ''::''"
  by (induction p) auto

lemma split_from_prefix:
  "\<not> str_includes p ''::'' \<Longrightarrow> p = [] \<or> last p \<noteq> CHR '':'' \<Longrightarrow>
   split_from ''::'' acc (p @ ''::'' @ m) = (rev acc @ p) # split_from ''::'' [] m"
proof (induction p arbitrary: acc)
  case Nil
  then show ?case by simp
next
  case (Cons c cs)
  show ?case
  proof (cases cs)
    case Nil
    with Cons.prems show ?thesis by simp
  next
    case (Cons d ds)
    have a: "\<not> str_includes cs ''::''" using Cons.prems(1) by simp
    have b: "cs = [] \<or> last cs \<noteq> CHR '':''" using Cons.prems(2) Cons by simp
    have c: "take 2 (c # cs @ ''::'' @ m) \<noteq> ''::''"
      using Cons.prems(1) Cons by auto
    show ?thesis using Cons.IH[OF a b, of "c # acc"] c by simp
  qed
qed

text \<open>
  Claim C3, as stated, fails: a provider id that ends with a colon has no \<open>::\<close> inside,
  but the encoded selector \<open>a:::b\<close> is split at its first \<open>::\<close>, which gives the pair
  \<open>(a, :b)\<close> instead of \<open>(a:, b)\<close>.
\<close>

theorem model_selector_counterexample:
  "\<not> str_includes ''a:'' ''::'' \<and> \<not> str_includes ''b'' ''::''
   \<and> model_fields (selector_value (JString ''a:'') (JString ''b'')) =
         [(''model'', obj_lit [(''providerID'', JString ''a''), (''modelID'', JString '':b'')])]
   \<and> model_fields (selector_value (JString ''a:'') (JString ''b'')) \<noteq>
         [(''model'', obj_lit [(''providerID'', JString ''a:''), (''modelID'', JString ''b'')])]"
  by (simp add: model_fields_def selector_value_def str_split_def nth_js_def obj_lit_def)

text \<open>
  Claim C3, amended: for every providerID \<open>p\<close> and modelID \<open>m\<close> neither of which
  contains \<open>::\<close>, and with \<open>p\<close> not ending in a colon, the selector that the model
  option loader builds from them is decoded by the payload builders into exactly
  \<open>{providerID: p, modelID: m}\<close>.
\<close>

theorem model_selector_roundtrip:
  assumes "\<not> str_includes p ''::''" and "\<not> str_includes m ''::''"
    and "p = [] \<or> last p \<noteq> CHR '':''"
  shows "model_fields (selector_value (JString p) (JString m)) =
           [(''model'', obj_lit [(''providerID'', JString p), (''modelID'', JString m)])]"
proof -
  have "str_split (p @ ''::'' @ m) ''::'' = [p, m]"
    using split_from_prefix[OF assms(1) assms(3), of "[]" m]
          split_from_no_sep[OF assms(2), of "[]"]
    by (simp add: str_split_def)
  then show ?thesis
    using str_includes_sep[of p m]
    by (simp add: model_fields_def selector_value_def nth_js_def)
qed

theorem model_selector_roundtrip_witness:
  "\<not> str_includes ''openai'' ''::'' \<and> \<not> str_includes ''gpt-4'' ''::''
   \<and> (''openai'' = [] \<or> last ''openai'' \<noteq> CHR '':'')
   \<and> model_fields (selector_value (JString ''openai'') (JString ''gpt-4'')) =
         [(''model'', obj_lit [(''providerID'', JString ''openai''),
                               (''modelID'', JString ''gpt-4'')])]"
  using model_selector_roundtrip[of "''openai''" "''gpt-4''"] by simp

section \<open>Shell and skill output\<close>

lemma is_object_get: "is_object p \<Longrightarrow> js_get p k = Inr (js_get_opt p k)"
  by (cases p) (auto simp: js_get_opt_def)

lemma opt_string_cases: "opt_string v \<Longrightarrow> v = JUndefined \<or> (\<exists>s. v = JString s)"
  by (cases v) auto

lemma js_get_opt_undefined [simp]: "js_get_opt JUndefined k = JUndefined"
  by (simp add: js_get_opt_def)

lemma tool_output_typed:
  assumes "typed_tool_part p" and "truthy (js_get_opt p ''state'')"
  shows "tool_output (js_get_opt p ''state'') = JString (tool_part_output p)"
proof -
  let ?st = "js_get_opt p ''state''"
  from assms have ob: "is_object ?st" and o: "opt_string (js_get_opt ?st ''output'')"
    and m: "js_get_opt ?st ''metadata'' = JUndefined
            \<or> (is_object (js_get_opt ?st ''metadata'')
                 \<and> opt_string (js_get_opt (js_get_opt ?st ''metadata'') ''output''))"
    by (auto simp: typed_tool_part_def typed_state_def)
  from m have m': "opt_string (js_get_opt (js_get_opt ?st ''metadata'') ''output'')"
    by auto
  from m have n: "nullish (js_get_opt ?st ''metadata'') \<longleftrightarrow> js_get_opt ?st ''metadata'' = JUndefined"
    by (cases "js_get_opt ?st ''metadata''") (auto simp: nullish_def)
  show ?thesis
    using opt_string_cases[OF o] opt_string_cases[OF m'] n
    by (auto simp: tool_output_def tool_part_output_def js_or_def string_of_def Let_def)
qed

lemma tool_part_output_no_state:
  "typed_tool_part p \<Longrightarrow> \<not> truthy (js_get_opt p ''state'') \<Longrightarrow> tool_part_output p = []"
  by (cases "js_get_opt p ''state''")
     (auto simp: typed_tool_part_def typed_state_def tool_part_output_def string_of_def)

lemma shell_loop_typed:
  "\<forall>p\<in>set ps. typed_tool_part p \<Longrightarrow>
   shell_loop ps acc = Inr (acc @ concat (map tool_part_output (filter (part_type_is ''tool'') ps)))"
proof (induction ps arbitrary: acc)
  case Nil
  then show ?case by simp
next
  case (Cons p ps)
  then have tp: "typed_tool_part p" and rest: "\<forall>p\<in>set ps. typed_tool_part p" by auto
  have g: "js_get p ''type'' = Inr (js_get_opt p ''type'')"
    using tp by (simp add: typed_tool_part_def is_object_get)
  show ?case
  proof (cases "part_type_is ''tool'' p")
    case False
    then show ?thesis using Cons.IH[OF rest] g by (simp add: part_type_is_def)
  next
    case True
    show ?thesis
    proof (cases "truthy (js_get_opt p ''state'')")
      case False
      then show ?thesis
        using Cons.IH[OF rest] g True tool_part_output_no_state[OF tp False]
        by (simp add: part_type_is_def)
    next
      case t: True
      show ?thesis
        using Cons.IH[OF rest] g True t tool_output_typed[OF tp t]
        by (simp add: part_type_is_def Let_def)
    qed
  qed
qed

lemma shell_output_typed:
  assumes "js_get response ''parts'' = Inr (JArray ps)" and "\<forall>p\<in>set ps. typed_tool_part p"
  shows "shell_output response =
           Inr (concat (map tool_part_output (filter (part_type_is ''tool'') ps)))"
  using shell_loop_typed[OF assms(2), of "[]"]
  by (simp add: shell_output_def assms(1) js_or_def)

text \<open>
  Claim C5, as stated, fails for the skill action: it sends the skill as a slash command
  through the message API and flattens the \<open>text\<close> parts of the answer, as send does.
  On a response whose only part is a tool part with \<open>state.output = "done"\<close> its response
  text is empty, while the shell flattening of the same response is \<open>done\<close>.
\<close>

theorem skill_output_counterexample:
  "executeSkill_result 0 ''review'' [] no_options (JString ''s1'') False
     (obj_lit [(''parts'', JArray [obj_lit [(''type'', JString ''tool''),
                                            (''state'', obj_lit [(''output'', JString ''done'')])]])]) =
   Inr [item (obj_lit [(''messageId'', JUndefined), (''sessionId'', JString ''s1''),
                       (''model'', JUndefined), (''provider'', JUndefined),
                       (''tokens'', JUndefined), (''cost'', JUndefined),
                       (''skill'', JString ''review''), (''skillArguments'', JString []),
                       (''wasTemporarySession'', JBool False),
                       (''response'', JString []),
                       (''parts'', JArray [obj_lit [(''type'', JString ''tool''),
                                            (''state'', obj_lit [(''output'', JString ''done'')])]])]) 0]
   \<and> shellOutput_of no_options
     (obj_lit [(''parts'', JArray [obj_lit [(''type'', JString ''tool''),
                                            (''state'', obj_lit [(''output'', JString ''done'')])]])]) =
   Inr ''done''"
  by (simp add: executeSkill_result_def responseText_of_def response_text_def obj_lit_def js_or_def
                array_join_def apply_trim_def trim_def js_whitespace_def nullish_or_def
                no_options_def string_or_def metadata_fields_def info_field_def js_get_opt_def
                nullish_def item_def shellOutput_of_def shell_output_def tool_output_def Let_def)

text \<open>
  Claim C5, amended: on a response whose parts follow the declared shape, the shell action
  computes its output from the parts of type \<open>tool\<close> only: for each, \<open>state.output\<close>, or
  \<open>state.metadata.output\<close> when \<open>state.output\<close> is absent or empty, concatenated in
  order; the skill action computes its response text from the parts of type \<open>text\<close>,
  joined with newlines, and takes nothing from the tool parts.
\<close>

theorem shell_and_skill_output:
  assumes "js_get response ''parts'' = Inr (JArray ps)"
    and "\<forall>p\<in>set ps. typed_part p \<and> typed_tool_part p"
  shows "executeShell_result i cmd agent True opts sid del response =
           Inr [item (obj_lit [(string_or (o_responseKey opts) ''response'',
                                JString (apply_trim (nullish_or (o_trimResponse opts) True)
                                   (concat (map tool_part_output
                                              (filter (part_type_is ''tool'') ps)))))]) i]
       \<and> executeShell_result i cmd agent False opts sid del response =
           Inr [item (obj_lit (metadata_fields response sid
                               @ [(''command'', JString cmd),
                                  (''agent'', JString agent),
                                  (''wasTemporarySession'', JBool del),
                                  (string_or (o_responseKey opts) ''response'',
                                   JString (apply_trim (nullish_or (o_trimResponse opts) True)
                                      (concat (map tool_part_output
                                                 (filter (part_type_is ''tool'') ps))))),
                                  (''parts'', JArray ps)])) i]
       \<and> executeSkill_result i sk args opts sid del response =
           Inr [item (obj_lit (metadata_fields response sid
                               @ [(''skill'', JString sk),
                                  (''skillArguments'', JString args),
                                  (''wasTemporarySession'', JBool del),
                                  (string_or (o_responseKey opts) ''response'',
                                   JString (apply_trim (nullish_or (o_trimResponse opts) True)
                                      (join (map part_text (filter (part_type_is ''text'') ps))
                                            [CHR 0x0A]))),
                                  (''parts'', JArray ps)])) i]"
proof -
  have t: "\<forall>p\<in>set ps. typed_part p" and u: "\<forall>p\<in>set ps. typed_tool_part p"
    using assms(2) by auto
  have p: "js_get_opt response ''parts'' = JArray ps"
    using assms(1) by (simp add: js_get_opt_def)
  show ?thesis
    by (simp add: executeShell_result_def shellOutput_of_def shell_output_typed[OF assms(1) u]
                  executeSkill_result_def responseText_of_def
                  response_text_typed[OF assms(1) t] p Let_def)
qed

theorem shell_and_skill_output_witness:
  "js_get (obj_lit [(''parts'', JArray tool_parts)]) ''parts'' = Inr (JArray tool_parts)
   \<and> list_all (\<lambda>p. typed_part p \<and> typed_tool_part p) tool_parts
   \<and> executeShell_result 0 ''ls'' ''build'' True no_options (JString ''s1'') False
         (obj_lit [(''parts'', JArray tool_parts)]) =
       Inr [item (obj_lit [(''response'', JString ''done!'')]) 0]
   \<and> executeSkill_result 0 ''review'' [] no_options (JString ''s1'') False
         (obj_lit [(''parts'', JArray tool_parts)]) =
       Inr [item (obj_lit [(''messageId'', JUndefined), (''sessionId'', JString ''s1''),
                           (''model'', JUndefined), (''provider'', JUndefined),
                           (''tokens'', JUndefined), (''cost'', JUndefined),
                           (''skill'', JString ''review''), (''skillArguments'', JString []),
                           (''wasTemporarySession'', JBool False),
                           (''response'', JString ''said''),
                           (''parts'', JArray tool_parts)]) 0]"
proof -
  have a: "js_get (obj_lit [(''parts'', JArray tool_parts)]) ''parts'' = Inr (JArray tool_parts)"
    by (simp add: obj_lit_def)
  have b: "\<forall>p\<in>set tool_parts. typed_part p \<and> typed_tool_part p"
    by (simp add: tool_parts_def obj_lit_def typed_tool_part_def typed_state_def js_get_opt_def)
  have c: "concat (map tool_part_output (filter (part_type_is ''tool'') tool_parts)) = ''done!''"
    by (simp add: tool_parts_def obj_lit_def part_type_is_def tool_part_output_def
                  js_get_opt_def string_of_def)
  have d: "join (map part_text (filter (part_type_is ''text'') tool_parts)) [CHR 0x0A] = ''said''"
    by (simp add: tool_parts_def obj_lit_def part_type_is_def part_text_def js_get_opt_def)
  have e: "metadata_fields (obj_lit [(''parts'', JArray tool_parts)]) (JString ''s1'') =
             [(''messageId'', JUndefined), (''sessionId'', JString ''s1''),
              (''model'', JUndefined), (''provider'', JUndefined),
              (''tokens'', JUndefined), (''cost'', JUndefined)]"
    by (simp add: metadata_fields_def info_field_def js_get_opt_def obj_lit_def nullish_def
                  js_or_def)
  show ?thesis
    using shell_and_skill_output[OF a b, of 0 "''ls''" "''build''" no_options "JString ''s1''"
            False "''review''" "[]"] a b
    by (simp add: c d e list_all_iff no_options_def nullish_or_def string_or_def apply_trim_def
                  trim_def js_whitespace_def)
qed

section \<open>The simple response of send\<close>

lemma JSON_parse_4: "JSON_parse ''4'' = Some (JNumber 4 0)" by code_simp
lemma JSON_parse_four: "JSON_parse ''four'' = None" by code_simp
lemma JSON_parse_not_json: "JSON_parse ''not json'' = None" by code_simp

lemma response_text_text_response: "response_text (text_response t) = Inr t"
  by (simp add: response_text_def text_response_def obj_lit_def js_or_def array_join_def)

lemma try_finally_keep: "try_finally (r, w) (\<lambda>w. (Inr (), w)) = (r, w)"
  by (simp add: try_finally_def)

lemma with_session_existing:
  "sessionMode \<noteq> ''temporary'' \<Longrightarrow> p_sessionId p = Some sid \<Longrightarrow>
   with_session http creds p sessionMode body w = body (JString sid) False w"
  by (cases "body (JString sid) False w")
     (simp add: with_session_def openSession_def requireNodeParameter_def try_finally_def closeSession_def)

text \<open>
  Claim C6, as stated, fails: with \<open>simpleResponse\<close> the action first tries
  \<open>JSON.parse\<close> on the response text, and \<open>4\<close> is valid JSON. The emitted \<open>json\<close> is the
  number 4, not the record \<open>{response: "4"}\<close>.
\<close>

theorem send_simple_counterexample:
  "fst (sendMessage (answering (text_response ''4'')) (scenario_host send_params) 0 empty_world) =
     Inr [item (JNumber 4 0) 0]
   \<and> fst (sendMessage (answering (text_response ''4'')) (scenario_host send_params) 0 empty_world) \<noteq>
     Inr [item (obj_lit [(''response'', JString ''4'')]) 0]"
  by (simp add: sendMessage_def getCredentials_def scenario_host_def send_params_def no_params_def
        getNodeParameter_def requireNodeParameter_def with_session_existing
        sendMessage_try_def openCodeApiRequest_def answering_def sendMessage_result_def
        responseText_of_def response_text_text_response apply_trim_def nullish_or_def no_options_def
        string_or_def Let_def trim_def js_whitespace_def JSON_parse_4 item_def obj_lit_def)

text \<open>
  Claim C6, amended: when send runs with \<open>simpleResponse = true\<close> (message \<open>2+2?\<close>,
  session \<open>s1\<close>, default options) against a response whose parts are exactly
  \<open>[{type: "text", text: t}]\<close>, the emitted \<open>json\<close> is the value of the trimmed text when
  that parses as JSON (for \<open>4\<close>, the number 4), and otherwise the record
  \<open>{response: trimmed text}\<close> under the default response key.
\<close>

theorem send_simple_scenario:
  "fst (sendMessage (answering (text_response t)) (scenario_host send_params) 0 w) =
     Inr [item (case JSON_parse (trim t) of
                  Some parsedJson \<Rightarrow> parsedJson
                | None \<Rightarrow> obj_lit [(''response'', JString (trim t))]) 0]"
  by (simp add: sendMessage_def getCredentials_def scenario_host_def send_params_def no_params_def
        getNodeParameter_def requireNodeParameter_def with_session_existing
        sendMessage_try_def openCodeApiRequest_def answering_def sendMessage_result_def
        responseText_of_def response_text_text_response apply_trim_def nullish_or_def no_options_def
        string_or_def Let_def split: option.splits)

theorem send_simple_scenario_witness:
  "fst (sendMessage (answering (text_response ''four'')) (scenario_host send_params) 0 empty_world) =
     Inr [item (obj_lit [(''response'', JString ''four'')]) 0]"
  using send_simple_scenario[of "''four''" empty_world]
  by (simp add: JSON_parse_four trim_def js_whitespace_def)

section \<open>The arguments of a command\<close>

lemma map_of_obj_put: "map_of (obj_put k v fs) = (map_of fs)(k \<mapsto> v)"
  by (induction fs) auto

lemma map_of_foldl_put:
  "map_of (foldl (\<lambda>fs (k, v). obj_put k v fs) init kvs) k =
     (case map_of (rev kvs) k of Some v \<Rightarrow> Some v | None \<Rightarrow> map_of init k)"
  by (induction kvs arbitrary: init) (auto simp: map_of_obj_put split: option.splits)

lemma js_get_obj_lit:
  "js_get (obj_lit kvs) k = Inr (case map_of (rev kvs) k of Some v \<Rightarrow> v | None \<Rightarrow> JUndefined)"
  by (simp add: obj_lit_def map_of_foldl_put split: option.splits)

text \<open>
  Claim C7, as stated, fails for the version 004 of the command action, which sends
  \<open>commandArguments\<close> as the string it is: for \<open>not json\<close> the payload's
  \<open>arguments\<close> is the string \<open>not json\<close>, not \<open>{input: "not json"}\<close>.
\<close>

theorem command_arguments_counterexample:
  "JSON_parse ''not json'' = None \<and> ''not json'' \<noteq> []
   \<and> map req_body (requests (snd (executeCommand_004 (answering (text_response ''ok''))
                                       (scenario_host command_params) 0 empty_world))) =
        [obj_lit [(''command'', JString ''help''), (''arguments'', JString ''not json'')]]
   \<and> js_get (obj_lit [(''command'', JString ''help''), (''arguments'', JString ''not json'')]) ''arguments''
        \<noteq> Inr (obj_lit [(''input'', JString ''not json'')])"
  by (simp add: JSON_parse_not_json executeCommand_004_def executeCommand_with_def
        getCredentials_def scenario_host_def command_params_def no_params_def
        getNodeParameter_def requireNodeParameter_def with_session_existing
        executeCommand_try_def openCodeApiRequest_def answering_def empty_world_def
        command_payload_004_def string_field_def string_or_def no_options_def obj_lit_def
        Let_def split: prod.splits)

text \<open>
  Claim C7, amended: for every \<open>commandArguments\<close> that is a non-empty string and not
  valid JSON, the payload of version 003 has \<open>arguments = {input: that string}\<close> and the
  payload of version 004 has \<open>arguments = that string\<close>; neither version fails on it,
  the payload being built without an error.
\<close>

theorem command_arguments:
  "JSON_parse a = None \<Longrightarrow> a \<noteq> [] \<Longrightarrow>
     js_get (command_payload_003 c a m opts) ''arguments'' = Inr (obj_lit [(''input'', JString a)])
     \<and> js_get (command_payload_004 c a m opts) ''arguments'' = Inr (JString a)"
  by (simp add: js_get_obj_lit command_payload_003_def command_payload_004_def
        string_field_def model_fields_def Let_def)

theorem command_arguments_witness:
  "JSON_parse ''not json'' = None \<and> ''not json'' \<noteq> []
   \<and> js_get (command_payload_003 ''help'' ''not json'' [] no_options) ''arguments'' =
        Inr (obj_lit [(''input'', JString ''not json'')])
   \<and> js_get (command_payload_004 ''help'' ''not json'' [] no_options) ''arguments'' =
        Inr (JString ''not json'')"
  using command_arguments[OF JSON_parse_not_json, of "''help''" "[]" no_options]
  by (simp add: JSON_parse_not_json)

section \<open>The lifecycle of a temporary session\<close>

lemma api_requests:
  "requests (snd (openCodeApiRequest http creds m ep b t w)) =
     requests w @ [\<lparr>req_method = m, req_url = baseUrl creds @ ep, req_body = b,
                    req_timeout = nullish_or t 300000,
                    req_auth = (username creds, password creds)\<rparr>]"
  by (simp add: openCodeApiRequest_def Let_def split: prod.splits sum.splits)

lemma createSession_requests:
  "requests (snd (createSession http creds title w)) = requests w @ [create_request creds title]"
proof -
  obtain r w' where a:
    "openCodeApiRequest http creds POST ''/session'' (obj_lit [(''title'', JString title)]) None w
       = (r, w')"
    by (cases "openCodeApiRequest http creds POST ''/session''
                 (obj_lit [(''title'', JString title)]) None w")
  have "requests w' = requests w @ [create_request creds title]"
    using api_requests[of http creds POST "''/session''" "obj_lit [(''title'', JString title)]"
            None w] a
    by (simp add: create_request_def nullish_or_def)
  then show ?thesis using a by (cases r) (simp_all add: createSession_def)
qed

lemma deleteSession_swallows: "fst (deleteSession http creds sid w) = Inr ()"
proof -
  obtain r w' where a:
    "openCodeApiRequest http creds DELETE (''/session/'' @ ToString sid) JUndefined None w = (r, w')"
    by (cases "openCodeApiRequest http creds DELETE (''/session/'' @ ToString sid) JUndefined None w")
  show ?thesis using a by (cases r) (simp_all add: deleteSession_def)
qed

lemma deleteSession_requests:
  "requests (snd (deleteSession http creds sid w)) = requests w @ [delete_request creds sid]"
proof -
  obtain r w' where a:
    "openCodeApiRequest http creds DELETE (''/session/'' @ ToString sid) JUndefined None w = (r, w')"
    by (cases "openCodeApiRequest http creds DELETE (''/session/'' @ ToString sid) JUndefined None w")
  have "requests w' = requests w @ [delete_request creds sid]"
    using api_requests[of http creds DELETE "''/session/'' @ ToString sid" JUndefined None w] a
    by (simp add: delete_request_def nullish_or_def)
  then show ?thesis using a by (cases r) (simp_all add: deleteSession_def)
qed

lemma with_session_create_fails:
  "createSession http creds (temp_title p) w = (Inl e, w1) \<Longrightarrow>
   with_session http creds p ''temporary'' body w = (Inl e, w1)"
  by (simp add: with_session_def openSession_def temp_title_def)

lemma with_session_temporary:
  assumes "createSession http creds (temp_title p) w = (Inr sid, w1)"
  shows "with_session http creds p ''temporary'' body w =
           (fst (body sid True w1), snd (deleteSession http creds sid (snd (body sid True w1))))"
proof -
  obtain r w2 where b: "body sid True w1 = (r, w2)" by (cases "body sid True w1")
  obtain d w3 where d: "deleteSession http creds sid w2 = (d, w3)"
    by (cases "deleteSession http creds sid w2")
  have "d = Inr ()" using deleteSession_swallows[of http creds sid w2] d by simp
  then show ?thesis
    using assms b d
    by (simp add: with_session_def openSession_def temp_title_def try_finally_def closeSession_def)
qed

lemma with_session_one_delete:
  assumes c: "createSession http creds (temp_title p) w = (Inr sid, w1)"
    and b: "posts_once (body sid True)"
  shows "deletes (issued w (snd (with_session http creds p ''temporary'' body w))) =
           [delete_request creds sid]"
proof -
  have r1: "requests w1 = requests w @ [create_request creds (temp_title p)]"
    using createSession_requests[of http creds "temp_title p" w] c by simp
  obtain r where r2: "requests (snd (body sid True w1)) = requests w1 @ [r]"
    and m: "req_method r = POST"
    using b unfolding posts_once_def by blast
  have r3: "requests (snd (deleteSession http creds sid (snd (body sid True w1)))) =
              requests w @ [create_request creds (temp_title p), r, delete_request creds sid]"
    using deleteSession_requests[of http creds sid "snd (body sid True w1)"] r1 r2 by simp
  show ?thesis
    using r3 m
    by (simp add: with_session_temporary[OF c] issued_def deletes_def create_request_def
                  delete_request_def)
qed

lemma posts_once_api:
  assumes "\<And>w. body w = (case openCodeApiRequest http creds POST ep b t w of
                          (Inl e, w') \<Rightarrow> (Inl e, w') | (Inr response, w') \<Rightarrow> (k response, w'))"
  shows "posts_once body"
  unfolding posts_once_def
proof
  fix w
  have "snd (body w) = snd (openCodeApiRequest http creds POST ep b t w)"
    unfolding assms by (simp split: prod.splits sum.splits)
  then show "\<exists>r. requests (snd (body w)) = requests w @ [r] \<and> req_method r = POST"
    using api_requests[of http creds POST ep b t w] by simp
qed

lemma sendMessage_try_posts:
  "posts_once (sendMessage_try http creds i msg simple model opts sid del)"
  by (rule posts_once_api, unfold sendMessage_try_def, rule refl)

lemma sendMessageAsync_try_posts:
  "posts_once (sendMessageAsync_try http creds i msg model opts sid del)"
  by (rule posts_once_api, unfold sendMessageAsync_try_def, rule refl)

lemma executeCommand_try_posts:
  "posts_once (executeCommand_try http creds i c payload opts sid del)"
  by (rule posts_once_api, unfold executeCommand_try_def, rule refl)

lemma executeShell_try_posts:
  "posts_once (executeShell_try http creds i c a model simple opts sid del)"
  by (rule posts_once_api, unfold executeShell_try_def, rule refl)

lemma executeSkill_try_posts:
  "posts_once (executeSkill_try http creds i sk args model opts sid del)"
  by (rule posts_once_api, unfold executeSkill_try_def, rule refl)

lemma sendMessage_temporary:
  assumes "credentials h = Inr creds" and "p_sessionMode (parameters h i) = Some ''temporary''"
    and "p_message (parameters h i) = Some msg"
  shows "sendMessage http h i w =
           with_session http creds (parameters h i) ''temporary''
             (sendMessage_try http creds i msg
                (getNodeParameter (p_simpleResponse (parameters h i)) False)
                (getNodeParameter (p_model (parameters h i)) [])
                (getNodeParameter (p_options (parameters h i)) no_options)) w"
  using assms
  by (simp add: sendMessage_def getCredentials_def getNodeParameter_def requireNodeParameter_def
                Let_def)

lemma sendMessageAsync_temporary:
  assumes "credentials h = Inr creds" and "p_sessionMode (parameters h i) = Some ''temporary''"
    and "p_message (parameters h i) = Some msg"
  shows "sendMessageAsync http h i w =
           with_session http creds (parameters h i) ''temporary''
             (sendMessageAsync_try http creds i msg
                (getNodeParameter (p_model (parameters h i)) [])
                (getNodeParameter (p_options (parameters h i)) no_options)) w"
  using assms
  by (simp add: sendMessageAsync_def getCredentials_def getNodeParameter_def
                requireNodeParameter_def Let_def)

lemma executeCommand_temporary:
  assumes "credentials h = Inr creds" and "p_sessionMode (parameters h i) = Some ''temporary''"
    and "p_command (parameters h i) = Some c"
  shows "executeCommand_with build http h i w =
           with_session http creds (parameters h i) ''temporary''
             (executeCommand_try http creds i c
                (build c (getNodeParameter (p_commandArguments (parameters h i)) [])
                   (getNodeParameter (p_model (parameters h i)) [])
                   (getNodeParameter (p_options (parameters h i)) no_options))
                (getNodeParameter (p_options (parameters h i)) no_options)) w"
  using assms
  by (simp add: executeCommand_with_def getCredentials_def getNodeParameter_def
                requireNodeParameter_def Let_def)

lemma executeShell_temporary:
  assumes "credentials h = Inr creds" and "p_sessionMode (parameters h i) = Some ''temporary''"
    and "p_shellCommand (parameters h i) = Some sc" and "p_shellAgent (parameters h i) = Some sa"
  shows "executeShell http h i w =
           with_session http creds (parameters h i) ''temporary''
             (executeShell_try http creds i sc sa
                (getNodeParameter (p_model (parameters h i)) [])
                (getNodeParameter (p_simpleResponse (parameters h i)) False)
                (getNodeParameter (p_options (parameters h i)) no_options)) w"
  using assms
  by (simp add: executeShell_def getCredentials_def getNodeParameter_def
                requireNodeParameter_def Let_def)

lemma executeSkill_temporary:
  assumes "credentials h = Inr creds" and "p_sessionMode (parameters h i) = Some ''temporary''"
    and "p_skill (parameters h i) = Some sk"
  shows "executeSkill http h i w =
           with_session http creds (parameters h i) ''temporary''
             (executeSkill_try http creds i sk
                (getNodeParameter (p_skillArguments (parameters h i)) [])
                (getNodeParameter (p_model (parameters h i)) [])
                (getNodeParameter (p_options (parameters h i)) no_options)) w"
  using assms
  by (simp add: executeSkill_def getCredentials_def getNodeParameter_def
                requireNodeParameter_def Let_def)

lemma cleanup_of_with_session:
  assumes a: "action w = with_session http creds p ''temporary'' body w"
    and c: "createSession http creds (temp_title p) w = (Inr sid, w1)"
    and b: "posts_once (body sid True)"
  shows "outcome_preserved action (body sid True) w w1 \<and> one_delete creds sid action w"
  using with_session_one_delete[where body = body, OF c b]
  by (simp add: outcome_preserved_def one_delete_def a with_session_temporary[where body = body, OF c])

text \<open>
  Claim C1: for every message-sending action (send, sendAsync, both versions of command,
  shell, skill) run in temporary-session mode, once the create call has returned the
  session id \<open>sid\<close>: the outcome of the action, value or error, is the outcome of its
  \<open>try\<close> block run on \<open>sid\<close>; among the requests the action issues exactly one is a
  DELETE, the one for \<open>/session/sid\<close>; and \<open>deleteSession\<close> never throws, in whatever
  world it runs.
\<close>

theorem temporary_session_cleanup:
  assumes "credentials h = Inr creds"
    and "p_sessionMode (parameters h i) = Some ''temporary''"
    and "createSession http creds (temp_title (parameters h i)) w = (Inr sid, w1)"
  shows "fst (deleteSession http creds sid w') = Inr ()
     \<and> (p_message (parameters h i) = Some msg \<longrightarrow>
          outcome_preserved (sendMessage http h i) (sendMessage_body http h i creds msg sid) w w1
          \<and> one_delete creds sid (sendMessage http h i) w
          \<and> outcome_preserved (sendMessageAsync http h i)
              (sendMessageAsync_body http h i creds msg sid) w w1
          \<and> one_delete creds sid (sendMessageAsync http h i) w)
     \<and> (p_command (parameters h i) = Some c \<longrightarrow>
          outcome_preserved (executeCommand_003 http h i)
              (executeCommand_body command_payload_003 http h i creds c sid) w w1
          \<and> one_delete creds sid (executeCommand_003 http h i) w
          \<and> outcome_preserved (executeCommand_004 http h i)
              (executeCommand_body command_payload_004 http h i creds c sid) w w1
          \<and> one_delete creds sid (executeCommand_004 http h i) w)
     \<and> (p_shellCommand (parameters h i) = Some sc \<and> p_shellAgent (parameters h i) = Some sa \<longrightarrow>
          outcome_preserved (executeShell http h i)
              (executeShell_body http h i creds sc sa sid) w w1
          \<and> one_delete creds sid (executeShell http h i) w)
     \<and> (p_skill (parameters h i) = Some sk \<longrightarrow>
          outcome_preserved (executeSkill http h i) (executeSkill_body http h i creds sk sid) w w1
          \<and> one_delete creds sid (executeSkill http h i) w)"
proof -
  note c = assms(3)
  let ?simple = "getNodeParameter (p_simpleResponse (parameters h i)) False"
  let ?model = "getNodeParameter (p_model (parameters h i)) []"
  let ?opts = "getNodeParameter (p_options (parameters h i)) no_options"
  have 0: "fst (deleteSession http creds sid w') = Inr ()" by (rule deleteSession_swallows)
  have 1: "outcome_preserved (sendMessage http h i) (sendMessage_body http h i creds msg sid) w w1
           \<and> one_delete creds sid (sendMessage http h i) w"
    if "p_message (parameters h i) = Some msg"
    unfolding sendMessage_body_def
    by (rule cleanup_of_with_session
               [where action = "sendMessage http h i" and w = w and
                      body = "sendMessage_try http creds i msg ?simple ?model ?opts",
                OF sendMessage_temporary[OF assms(1,2) that, where http = http and w = w] c sendMessage_try_posts])
  have 2: "outcome_preserved (sendMessageAsync http h i)
              (sendMessageAsync_body http h i creds msg sid) w w1
           \<and> one_delete creds sid (sendMessageAsync http h i) w"
    if "p_message (parameters h i) = Some msg"
    unfolding sendMessageAsync_body_def
    by (rule cleanup_of_with_session
               [where action = "sendMessageAsync http h i" and w = w and
                      body = "sendMessageAsync_try http creds i msg ?model ?opts",
                OF sendMessageAsync_temporary[OF assms(1,2) that, where http = http and w = w] c sendMessageAsync_try_posts])
  have 3: "outcome_preserved (executeCommand_with build http h i)
              (executeCommand_body build http h i creds c sid) w w1
           \<and> one_delete creds sid (executeCommand_with build http h i) w"
    if "p_command (parameters h i) = Some c" for build
    unfolding executeCommand_body_def
    by (rule cleanup_of_with_session
               [where action = "executeCommand_with build http h i" and w = w and
                      body = "executeCommand_try http creds i c
                  (build c (getNodeParameter (p_commandArguments (parameters h i)) []) ?model ?opts)
                  ?opts",
                OF executeCommand_temporary[OF assms(1,2) that, where http = http and w = w] c executeCommand_try_posts])
  have 4: "outcome_preserved (executeShell http h i)
              (executeShell_body http h i creds sc sa sid) w w1
           \<and> one_delete creds sid (executeShell http h i) w"
    if "p_shellCommand (parameters h i) = Some sc" "p_shellAgent (parameters h i) = Some sa"
    unfolding executeShell_body_def
    by (rule cleanup_of_with_session
               [where action = "executeShell http h i" and w = w and
                      body = "executeShell_try http creds i sc sa ?model ?simple ?opts",
                OF executeShell_temporary[OF assms(1,2) that, where http = http and w = w] c executeShell_try_posts])
  have 5: "outcome_preserved (executeSkill http h i) (executeSkill_body http h i creds sk sid) w w1
           \<and> one_delete creds sid (executeSkill http h i) w"
    if "p_skill (parameters h i) = Some sk"
    unfolding executeSkill_body_def
    by (rule cleanup_of_with_session
               [where action = "executeSkill http h i" and w = w and
                      body = "executeSkill_try http creds i sk
                  (getNodeParameter (p_skillArguments (parameters h i)) []) ?model ?opts",
                OF executeSkill_temporary[OF assms(1,2) that, where http = http and w = w] c executeSkill_try_posts])
  show ?thesis
    using 0 1 2 3[of command_payload_003] 3[of command_payload_004] 4 5
    by (simp add: executeCommand_003_def executeCommand_004_def)
qed

lemma createSession_create_only:
  "createSession create_only scenario_credentials ''Temporary Chat Session'' empty_world =
     (Inr (JString ''tmp1''), after_create)"
  by (simp add: createSession_def openCodeApiRequest_def create_only_def scenario_credentials_def
                empty_world_def after_create_def create_request_def nullish_or_def obj_lit_def
                Let_def)

lemma temp_title_temp_params:
  "temp_title (parameters (scenario_host temp_params) 0) = ''Temporary Chat Session''"
  by (simp add: temp_title_def scenario_host_def temp_params_def no_params_def
                getNodeParameter_def)

theorem temporary_session_cleanup_witness:
  "credentials (scenario_host temp_params) = Inr scenario_credentials
   \<and> p_sessionMode (parameters (scenario_host temp_params) 0) = Some ''temporary''
   \<and> createSession create_only scenario_credentials
         (temp_title (parameters (scenario_host temp_params) 0)) empty_world =
       (Inr (JString ''tmp1''), after_create)
   \<and> p_message (parameters (scenario_host temp_params) 0) = Some ''2+2?''
   \<and> p_command (parameters (scenario_host temp_params) 0) = Some ''help''
   \<and> p_shellCommand (parameters (scenario_host temp_params) 0) = Some ''ls''
   \<and> p_shellAgent (parameters (scenario_host temp_params) 0) = Some ''build''
   \<and> p_skill (parameters (scenario_host temp_params) 0) = Some ''review''
   \<and> fst (sendMessage create_only (scenario_host temp_params) 0 empty_world) =
       Inl (Error ''OpenCode API request failed: out of service'')
   \<and> map req_url (deletes (issued empty_world
          (snd (sendMessage create_only (scenario_host temp_params) 0 empty_world)))) =
       [''http://127.0.0.1:4096/session/tmp1'']
   \<and> map req_url (deletes (issued empty_world
          (snd (sendMessageAsync create_only (scenario_host temp_params) 0 empty_world)))) =
       [''http://127.0.0.1:4096/session/tmp1'']
   \<and> map req_url (deletes (issued empty_world
          (snd (executeCommand_003 create_only (scenario_host temp_params) 0 empty_world)))) =
       [''http://127.0.0.1:4096/session/tmp1'']
   \<and> map req_url (deletes (issued empty_world
          (snd (executeCommand_004 create_only (scenario_host temp_params) 0 empty_world)))) =
       [''http://127.0.0.1:4096/session/tmp1'']
   \<and> map req_url (deletes (issued empty_world
          (snd (executeShell create_only (scenario_host temp_params) 0 empty_world)))) =
       [''http://127.0.0.1:4096/session/tmp1'']
   \<and> map req_url (deletes (issued empty_world
          (snd (executeSkill create_only (scenario_host temp_params) 0 empty_world)))) =
       [''http://127.0.0.1:4096/session/tmp1'']"
proof -
  have a: "credentials (scenario_host temp_params) = Inr scenario_credentials"
    by (simp add: scenario_host_def)
  have b: "p_sessionMode (parameters (scenario_host temp_params) 0) = Some ''temporary''"
    by (simp add: scenario_host_def temp_params_def no_params_def)
  have c: "createSession create_only scenario_credentials
             (temp_title (parameters (scenario_host temp_params) 0)) empty_world =
           (Inr (JString ''tmp1''), after_create)"
    by (simp only: temp_title_temp_params createSession_create_only)
  have d: "p_message (parameters (scenario_host temp_params) 0) = Some ''2+2?''"
          "p_command (parameters (scenario_host temp_params) 0) = Some ''help''"
          "p_shellCommand (parameters (scenario_host temp_params) 0) = Some ''ls''"
          "p_shellAgent (parameters (scenario_host temp_params) 0) = Some ''build''"
          "p_skill (parameters (scenario_host temp_params) 0) = Some ''review''"
    by (simp_all add: scenario_host_def temp_params_def no_params_def)
  have e: "fst (sendMessage_body create_only (scenario_host temp_params) 0 scenario_credentials
                  ''2+2?'' (JString ''tmp1'') after_create) =
           Inl (Error ''OpenCode API request failed: out of service'')"
    by (simp add: sendMessage_body_def sendMessage_try_def openCodeApiRequest_def create_only_def
                  scenario_credentials_def Let_def)
  show ?thesis
    using temporary_session_cleanup[OF a b c, of empty_world "''2+2?''" "''help''" "''ls''"
            "''build''" "''review''"] a b c d e
    by (simp add: outcome_preserved_def one_delete_def delete_request_def scenario_credentials_def)
qed

text \<open>
  Claim C9: in temporary-session mode, if the create-session call fails, every
  message-sending action fails with that error in the world the create call left, and
  the only request issued is the create request: no message request and no delete
  request.
\<close>

theorem create_failure_propagates:
  assumes "credentials h = Inr creds"
    and "p_sessionMode (parameters h i) = Some ''temporary''"
    and "createSession http creds (temp_title (parameters h i)) w = (Inl e, w1)"
  shows "issued w w1 = [create_request creds (temp_title (parameters h i))]
     \<and> (p_message (parameters h i) = Some msg \<longrightarrow>
          sendMessage http h i w = (Inl e, w1) \<and> sendMessageAsync http h i w = (Inl e, w1))
     \<and> (p_command (parameters h i) = Some c \<longrightarrow>
          executeCommand_003 http h i w = (Inl e, w1)
          \<and> executeCommand_004 http h i w = (Inl e, w1))
     \<and> (p_shellCommand (parameters h i) = Some sc \<and> p_shellAgent (parameters h i) = Some sa \<longrightarrow>
          executeShell http h i w = (Inl e, w1))
     \<and> (p_skill (parameters h i) = Some sk \<longrightarrow> executeSkill http h i w = (Inl e, w1))"
proof -
  note f = with_session_create_fails[OF assms(3)]
  have 0: "issued w w1 = [create_request creds (temp_title (parameters h i))]"
    using createSession_requests[of http creds "temp_title (parameters h i)" w] assms(3)
    by (simp add: issued_def)
  show ?thesis
    using 0
    by (auto simp: sendMessage_temporary[OF assms(1,2)] sendMessageAsync_temporary[OF assms(1,2)]
                   executeCommand_temporary[OF assms(1,2)] executeShell_temporary[OF assms(1,2)]
                   executeSkill_temporary[OF assms(1,2)] f
                   executeCommand_003_def executeCommand_004_def)
qed

theorem create_failure_propagates_witness:
  "credentials (scenario_host temp_params) = Inr scenario_credentials
   \<and> p_sessionMode (parameters (scenario_host temp_params) 0) = Some ''temporary''
   \<and> p_message (parameters (scenario_host temp_params) 0) = Some ''2+2?''
   \<and> p_command (parameters (scenario_host temp_params) 0) = Some ''help''
   \<and> p_shellCommand (parameters (scenario_host temp_params) 0) = Some ''ls''
   \<and> p_shellAgent (parameters (scenario_host temp_params) 0) = Some ''build''
   \<and> p_skill (parameters (scenario_host temp_params) 0) = Some ''review''
   \<and> createSession unreachable scenario_credentials
         (temp_title (parameters (scenario_host temp_params) 0)) empty_world =
       (Inl (Error ''OpenCode API request failed: connect ECONNREFUSED''), after_create)
   \<and> issued empty_world after_create =
       [create_request scenario_credentials ''Temporary Chat Session'']
   \<and> sendMessage unreachable (scenario_host temp_params) 0 empty_world =
       (Inl (Error ''OpenCode API request failed: connect ECONNREFUSED''), after_create)
   \<and> sendMessageAsync unreachable (scenario_host temp_params) 0 empty_world =
       (Inl (Error ''OpenCode API request failed: connect ECONNREFUSED''), after_create)
   \<and> executeCommand_003 unreachable (scenario_host temp_params) 0 empty_world =
       (Inl (Error ''OpenCode API request failed: connect ECONNREFUSED''), after_create)
   \<and> executeCommand_004 unreachable (scenario_host temp_params) 0 empty_world =
       (Inl (Error ''OpenCode API request failed: connect ECONNREFUSED''), after_create)
   \<and> executeShell unreachable (scenario_host temp_params) 0 empty_world =
       (Inl (Error ''OpenCode API request failed: connect ECONNREFUSED''), after_create)
   \<and> executeSkill unreachable (scenario_host temp_params) 0 empty_world =
       (Inl (Error ''OpenCode API request failed: connect ECONNREFUSED''), after_create)"
proof -
  have a: "credentials (scenario_host temp_params) = Inr scenario_credentials"
    by (simp add: scenario_host_def)
  have b: "p_sessionMode (parameters (scenario_host temp_params) 0) = Some ''temporary''"
    by (simp add: scenario_host_def temp_params_def no_params_def)
  have c: "createSession unreachable scenario_credentials
             (temp_title (parameters (scenario_host temp_params) 0)) empty_world =
           (Inl (Error ''OpenCode API request failed: connect ECONNREFUSED''), after_create)"
    by (simp add: temp_title_temp_params createSession_def openCodeApiRequest_def unreachable_def
                  scenario_credentials_def empty_world_def after_create_def create_request_def
                  nullish_or_def obj_lit_def Let_def)
  have d: "p_message (parameters (scenario_host temp_params) 0) = Some ''2+2?''"
          "p_command (parameters (scenario_host temp_params) 0) = Some ''help''"
          "p_shellCommand (parameters (scenario_host temp_params) 0) = Some ''ls''"
          "p_shellAgent (parameters (scenario_host temp_params) 0) = Some ''build''"
          "p_skill (parameters (scenario_host temp_params) 0) = Some ''review''"
    by (simp_all add: scenario_host_def temp_params_def no_params_def)
  show ?thesis
    using create_failure_propagates[OF a b c, of "''2+2?''" "''help''" "''ls''" "''build''"
            "''review''"] a b c d
    by (simp add: temp_title_temp_params)
qed

section \<open>Dispatch and per-item errors\<close>




section \<open>The records of list\<close>

text \<open>
  Claim C10: when its request succeeds, the list-messages action emits exactly one
  summary record \<open>{messages: [], count: 0, sessionId}\<close> if the response is an empty array
  or not an array, and otherwise one record per message, in the order of the array; the
  records are never none.
\<close>

theorem list_messages_records:
  assumes "credentials h = Inr creds" and "p_sessionId (parameters h i) = Some sid"
    and "openCodeApiRequest http creds GET
           (list_endpoint sid (getNodeParameter (p_limit (parameters h i)) 50))
           JUndefined None w = (Inr response, w')"
  shows "listMessages http h i w =
           (Inr (if messages_of response = [] then [summary_item sid i]
                 else map (\<lambda>msg. item msg i) (messages_of response)), w')
         \<and> (if messages_of response = [] then [summary_item sid i]
             else map (\<lambda>msg. item msg i) (messages_of response)) \<noteq> []"
proof -
  have "listMessages http h i w =
          (case openCodeApiRequest http creds GET
                  (list_endpoint sid (getNodeParameter (p_limit (parameters h i)) 50))
                  JUndefined None w of
             (Inl e, w') \<Rightarrow> (Inl e, w')
           | (Inr response, w') \<Rightarrow>
               (if messages_of response = [] then (Inr [summary_item sid i], w')
                else (Inr (map (\<lambda>msg. item msg i) (messages_of response)), w')))"
    unfolding listMessages_def list_endpoint_def messages_of_def summary_item_def
    by (simp only: assms(1,2) getCredentials_def requireNodeParameter_def Let_def
                   sum.case option.case list.size(3) length_0_conv)
  then show ?thesis by (simp add: assms(3))
qed

theorem list_messages_records_witness:
  "credentials (scenario_host list_params) = Inr scenario_credentials
   \<and> p_sessionId (parameters (scenario_host list_params) 0) = Some ''s1''
   \<and> fst (listMessages (answering (JArray [])) (scenario_host list_params) 0 empty_world) =
        Inr [summary_item ''s1'' 0]
   \<and> fst (listMessages (answering (obj_lit [])) (scenario_host list_params) 0 empty_world) =
        Inr [summary_item ''s1'' 0]
   \<and> fst (listMessages (answering (JArray [JString ''m1'', JString ''m2'']))
              (scenario_host list_params) 0 empty_world) =
        Inr [item (JString ''m1'') 0, item (JString ''m2'') 0]"
proof -
  have a: "credentials (scenario_host list_params) = Inr scenario_credentials"
    by (simp add: scenario_host_def)
  have b: "p_sessionId (parameters (scenario_host list_params) 0) = Some ''s1''"
    by (simp add: scenario_host_def list_params_def no_params_def)
  have c: "\<exists>w'. openCodeApiRequest (answering r) scenario_credentials GET
             (list_endpoint ''s1'' (getNodeParameter (p_limit (parameters (scenario_host list_params) 0)) 50))
             JUndefined None empty_world = (Inr r, w')" for r
    by (simp add: openCodeApiRequest_def answering_def Let_def)
  from c[of "JArray []"] obtain w1 where c1: "openCodeApiRequest (answering (JArray [])) scenario_credentials GET
             (list_endpoint ''s1'' (getNodeParameter (p_limit (parameters (scenario_host list_params) 0)) 50))
             JUndefined None empty_world = (Inr (JArray []), w1)" by blast
  from c[of "obj_lit []"] obtain w2 where c2: "openCodeApiRequest (answering (obj_lit [])) scenario_credentials GET
             (list_endpoint ''s1'' (getNodeParameter (p_limit (parameters (scenario_host list_params) 0)) 50))
             JUndefined None empty_world = (Inr (obj_lit []), w2)" by blast
  from c[of "JArray [JString ''m1'', JString ''m2'']"] obtain w3 where c3: "openCodeApiRequest (answering (JArray [JString ''m1'', JString ''m2''])) scenario_credentials GET
             (list_endpoint ''s1'' (getNodeParameter (p_limit (parameters (scenario_host list_params) 0)) 50))
             JUndefined None empty_world = (Inr (JArray [JString ''m1'', JString ''m2'']), w3)" by blast
  show ?thesis
    using list_messages_records[OF a b c1] list_messages_records[OF a b c2]
          list_messages_records[OF a b c3] a b
    by (simp add: messages_of_def obj_lit_def)
qed

section \<open>What the option providers return\<close>







end
